theory Spec2Isabelle
  imports Complex_Main
begin

section \<open>Here2Run: the run-tracking session controller\<close>

text \<open>
  The model follows the tracking screen (\<open>TrackingScreen\<close>), the location service
  (\<open>locationService\<close>), the background location task (\<open>backgroundTask\<close>), the
  tracking controls (\<open>TrackingControls\<close>) and \<open>utils/metrics.ts\<close>.

  Conventions of the embedding:
  \<^item> JavaScript numbers that hold epoch milliseconds, durations and counters are \<open>int\<close>
    or \<open>nat\<close>; latitudes, longitudes, accuracies and distances are \<open>real\<close>.
  \<^item> An optional or nullable field is an \<open>option\<close>; JavaScript truthiness of a number
    (\<open>if (x)\<close>, \<open>x || d\<close>, \<open>x && e\<close>) is written out: \<open>null\<close>, \<open>undefined\<close> and
    \<open>0\<close> are falsy.
  \<^item> The React state of the screen, its refs, the module variables of the two services
    and the stored snapshot are the fields of one record; every handler is a function
    from the state before to the state after. A ref that mirrors a state variable is
    read as that variable.
  \<^item> A handler is a closure of the render that created it: the state variables it reads
    are those of that render (a \<open>render\<close> record), while its setters and the refs act on
    the live state. A button is wired to the handler of the current render; an interval
    or a monitor keeps calling the handler of the render that registered it.
  \<^item> What the platform answers (permission prompts, watcher starts, the clock) is a
    parameter of the handler. Several \<open>Date.now()\<close> calls inside one handler are one
    clock reading.
  \<^item> Alerts, logging, navigation, map animation and the diagnostic error counters have no
    effect on the session and are left out.
\<close>

subsection \<open>JavaScript truthiness\<close>

definition truthy :: "'a::zero option \<Rightarrow> bool" where
  "truthy x = (case x of None \<Rightarrow> False | Some v \<Rightarrow> v \<noteq> 0)"

text \<open>\<open>x || d\<close> for an optional number \<open>x\<close> and a number \<open>d\<close>.\<close>

definition orElse :: "'a::zero option \<Rightarrow> 'a \<Rightarrow> 'a" where
  "orElse x d = (case x of None \<Rightarrow> d | Some v \<Rightarrow> if v = 0 then d else v)"

text \<open>\<open>x || undefined\<close>.\<close>

definition orUndefined :: "'a::zero option \<Rightarrow> 'a option" where
  "orUndefined x = (case x of None \<Rightarrow> None | Some v \<Rightarrow> if v = 0 then None else Some v)"

subsection \<open>Data (\<open>types/run.ts\<close>, \<open>types/gps.ts\<close>, \<open>locationService\<close>)\<close>

datatype source = Foreground | Background

record RouteCoordinate =
  latitude :: real
  longitude :: real
  altitude :: "real option"
  accuracy :: "real option"
  timestamp :: "int option"
  source :: "source option"
  segmentIndex :: "nat option"

record RouteSegment =
  seg_segmentIndex :: nat
  seg_coordinates :: "RouteCoordinate list"
  seg_distance :: real
  seg_duration :: int
  seg_startTime :: int
  seg_endTime :: int

datatype permission = Granted | Denied | NotRequested

record GPSStatus =
  gps_permission :: permission
  servicesEnabled :: bool
  canAskAgain :: bool

record UserLocation =
  ul_latitude :: real
  ul_longitude :: real
  ul_accuracy :: "real option"
  ul_altitude :: "real option"
  ul_timestamp :: "int option"
  ul_speed :: "real option"
  ul_heading :: "real option"

text \<open>A fix as the platform delivers it (\<open>Location.LocationObject\<close>).\<close>

record LocationObject =
  lo_latitude :: real
  lo_longitude :: real
  lo_altitude :: "real option"
  lo_accuracy :: "real option"
  lo_speed :: "real option"
  lo_heading :: "real option"
  lo_timestamp :: int

text \<open>The run id \<open>`run_${Date.now()}`\<close>, a non-empty string, kept as its number.\<close>

datatype run_id = RunId int

text \<open>
  The argument of \<open>saveCurrentTrackingData\<close> and the value of
  \<open>getCurrentTrackingData\<close>. The fields the reader guards with \<open>||\<close> are optional.
\<close>

record snapshot =
  snap_id :: run_id
  snap_startTime :: int
  snap_route :: "RouteCoordinate list"
  snap_isTracking :: bool
  snap_isPaused :: bool
  snap_currentSegmentIndex :: "nat option"
  snap_totalPausedTime :: "int option"
  snap_pauseStartTime :: "int option"
  snap_currentSegmentStartTime :: "int option"
  snap_elapsedTime :: "int option"
  snap_lastBackgroundUpdate :: "int option"

text \<open>The state variables of one render, as a handler created in it sees them.\<close>

record render =
  r_isTracking :: bool
  r_isPaused :: bool
  r_startTime :: "int option"
  r_totalPausedTime :: int
  r_pauseStartTime :: "int option"
  r_currentRunId :: "run_id option"
  r_route :: "RouteCoordinate list"
  r_currentSegmentIndex :: nat
  r_currentSegmentStartTime :: "int option"
  r_gpsStatus :: GPSStatus
  r_elapsedTime :: int

text \<open>
  The screen's state and refs, the stored snapshot (the single current-tracking slot of
  \<open>storageService\<close>: \<open>save\<close> overwrites it, \<open>clear\<close> empties it), and the module
  state of the two location services. \<open>gpsMonitor\<close> is the 500 ms monitor of
  \<open>startGPSMonitoring\<close>: absent, or running with the \<open>handleGpsDisabled\<close> of the render
  that started it.
\<close>

record state =
  isTracking :: bool
  isPaused :: bool
  startTime :: "int option"
  totalPausedTime :: int
  pauseStartTime :: "int option"
  currentRunId :: "run_id option"
  route :: "RouteCoordinate list"
  currentSegmentIndex :: nat
  currentSegmentStartTime :: "int option"
  segments :: "RouteSegment list"
  gpsStatus :: GPSStatus
  userLocation :: "UserLocation option"
  initialLocationLoaded :: bool
  elapsedTime :: int
  showGpsDisabledMessage :: bool
  lastLocationTime :: int
  isLocationUpdateInProgress :: bool
  stored :: "snapshot option"
  svc_lastLocationTime :: int
  fgWatching :: bool
  gpsMonitor :: "render option"
  lastProcessedTimestamp :: int
  bgWatching :: bool

text \<open>The values of the first render (\<open>useState\<close>, \<open>useRef\<close>) over a given store.\<close>

definition initialState :: "snapshot option \<Rightarrow> state" where
  "initialState s =
     \<lparr> isTracking = False, isPaused = False, startTime = None, totalPausedTime = 0,
       pauseStartTime = None, currentRunId = None, route = [], currentSegmentIndex = 0,
       currentSegmentStartTime = None, segments = [],
       gpsStatus = \<lparr> gps_permission = NotRequested, servicesEnabled = False,
                     canAskAgain = True \<rparr>,
       userLocation = None, initialLocationLoaded = False, elapsedTime = 0,
       showGpsDisabledMessage = False, lastLocationTime = 0,
       isLocationUpdateInProgress = False, stored = s, svc_lastLocationTime = 0,
       fgWatching = False, gpsMonitor = None, lastProcessedTimestamp = 0,
       bgWatching = False \<rparr>"

text \<open>The render of a state, and the first render (the \<open>useState\<close> defaults).\<close>

definition renderOf :: "state \<Rightarrow> render" where
  "renderOf st =
     \<lparr> r_isTracking = isTracking st, r_isPaused = isPaused st, r_startTime = startTime st,
       r_totalPausedTime = totalPausedTime st, r_pauseStartTime = pauseStartTime st,
       r_currentRunId = currentRunId st, r_route = route st,
       r_currentSegmentIndex = currentSegmentIndex st,
       r_currentSegmentStartTime = currentSegmentStartTime st,
       r_gpsStatus = gpsStatus st, r_elapsedTime = elapsedTime st \<rparr>"

definition firstRender :: render where
  "firstRender =
     \<lparr> r_isTracking = False, r_isPaused = False, r_startTime = None,
       r_totalPausedTime = 0, r_pauseStartTime = None, r_currentRunId = None, r_route = [],
       r_currentSegmentIndex = 0, r_currentSegmentStartTime = None,
       r_gpsStatus = \<lparr> gps_permission = NotRequested, servicesEnabled = False,
                       canAskAgain = True \<rparr>,
       r_elapsedTime = 0 \<rparr>"

subsection \<open>Metrics (\<open>utils/metrics.ts\<close>)\<close>

text \<open>\<open>Math.atan2\<close> on reals.\<close>

definition atan2 :: "real \<Rightarrow> real \<Rightarrow> real" where
  "atan2 y x =
     (if 0 < x then arctan (y / x)
      else if x < 0 then (if 0 \<le> y then arctan (y / x) + pi else arctan (y / x) - pi)
      else if 0 < y then pi / 2
      else if y < 0 then - (pi / 2)
      else 0)"

text \<open>The haversine distance in metres, with doubles read as reals.\<close>

definition calculateDistance :: "real \<Rightarrow> real \<Rightarrow> real \<Rightarrow> real \<Rightarrow> real" where
  "calculateDistance lat1 lon1 lat2 lon2 =
     (let R = 6371000;
          phi1 = lat1 * pi / 180;
          phi2 = lat2 * pi / 180;
          dphi = (lat2 - lat1) * pi / 180;
          dlam = (lon2 - lon1) * pi / 180;
          a = sin (dphi / 2) * sin (dphi / 2)
              + cos phi1 * cos phi2 * sin (dlam / 2) * sin (dlam / 2);
          c = 2 * atan2 (sqrt a) (sqrt (1 - a))
      in R * c)"

text \<open>The sum of the distances between consecutive coordinates; 0 below two of them.\<close>

fun calculateTotalDistance :: "RouteCoordinate list \<Rightarrow> real" where
  "calculateTotalDistance (p # c # cs) =
     calculateDistance (latitude p) (longitude p) (latitude c) (longitude c)
       + calculateTotalDistance (c # cs)"
| "calculateTotalDistance cs = 0"

text \<open>
  \<open>coordinatesToSegments\<close> groups the coordinates in a \<open>Map\<close> keyed by
  \<open>coord.segmentIndex || 0\<close>. A JavaScript \<open>Map\<close> iterates in insertion order, so it is
  an association list: \<open>mapPush\<close> appends to the entry of a key, or adds the entry last.
\<close>

definition segmentIndexOr0 :: "RouteCoordinate \<Rightarrow> nat" where
  "segmentIndexOr0 c = orElse (segmentIndex c) 0"

fun mapPush :: "nat \<Rightarrow> 'a \<Rightarrow> (nat \<times> 'a list) list \<Rightarrow> (nat \<times> 'a list) list" where
  "mapPush k c [] = [(k, [c])]"
| "mapPush k c ((k', cs) # m) =
     (if k' = k then (k', cs @ [c]) # m else (k', cs) # mapPush k c m)"

definition segmentMap :: "RouteCoordinate list \<Rightarrow> (nat \<times> RouteCoordinate list) list" where
  "segmentMap coordinates = foldl (\<lambda>m coord. mapPush (segmentIndexOr0 coord) coord m) [] coordinates"

text \<open>The timestamps of the coordinates that have a truthy one.\<close>

definition timestamped :: "RouteCoordinate list \<Rightarrow> int list" where
  "timestamped cs = map (\<lambda>c. the (timestamp c)) (filter (\<lambda>c. truthy (timestamp c)) cs)"

definition toSegment :: "nat \<times> RouteCoordinate list \<Rightarrow> RouteSegment" where
  "toSegment e =
     (case e of (index, segmentCoords) \<Rightarrow>
        (case timestamped segmentCoords of
           [] \<Rightarrow> \<lparr> seg_segmentIndex = index, seg_coordinates = segmentCoords,
                   seg_distance = calculateTotalDistance segmentCoords,
                   seg_duration = 0, seg_startTime = 0, seg_endTime = 0 \<rparr>
         | t # ts \<Rightarrow>
             (let startT = foldl min t ts; endT = foldl max t ts
              in \<lparr> seg_segmentIndex = index, seg_coordinates = segmentCoords,
                   seg_distance = calculateTotalDistance segmentCoords,
                   seg_duration = (endT - startT) div 1000,
                   seg_startTime = startT, seg_endTime = endT \<rparr>)))"

text \<open>The segments, sorted by \<open>a.segmentIndex - b.segmentIndex\<close> (a stable sort).\<close>

definition coordinatesToSegments :: "RouteCoordinate list \<Rightarrow> RouteSegment list" where
  "coordinatesToSegments coordinates =
     sort_key seg_segmentIndex (map toSegment (segmentMap coordinates))"

subsection \<open>The location services\<close>

definition gpsGood :: "GPSStatus \<Rightarrow> bool" where
  "gpsGood g \<longleftrightarrow> servicesEnabled g \<and> gps_permission g = Granted"

text \<open>
  How \<open>startLocationTracking\<close> ends: the watcher runs; the permission or services check
  refuses before anything is reset; or \<open>watchPositionAsync\<close> throws after the reset.
\<close>

datatype fg_outcome = FgStarted | FgRefused | FgThrew

definition stopLocationTracking :: "state \<Rightarrow> state" where
  "stopLocationTracking st = st\<lparr>fgWatching := False\<rparr>"

definition stopBackgroundLocationTracking :: "state \<Rightarrow> state" where
  "stopBackgroundLocationTracking st = st\<lparr>bgWatching := False, lastProcessedTimestamp := 0\<rparr>"

text \<open>
  \<open>startBackgroundLocationTracking\<close>: \<open>bg\<close> says whether the background permission is
  granted and the platform starts the updates.
\<close>

definition startBackgroundLocationTracking :: "bool \<Rightarrow> state \<Rightarrow> bool \<times> state" where
  "startBackgroundLocationTracking bg st =
     (if bg then (True, (stopBackgroundLocationTracking st)\<lparr>lastProcessedTimestamp := 0,
                                                            bgWatching := True\<rparr>)
      else (False, st))"

definition startLocationTracking :: "fg_outcome \<Rightarrow> state \<Rightarrow> bool \<times> state" where
  "startLocationTracking fg st =
     (case fg of
        FgRefused \<Rightarrow> (False, st)
      | FgThrew \<Rightarrow> (False, (stopLocationTracking st)\<lparr>svc_lastLocationTime := 0\<rparr>)
      | FgStarted \<Rightarrow> (True, (stopLocationTracking st)\<lparr>svc_lastLocationTime := 0,
                                                       fgWatching := True\<rparr>))"

text \<open>\<open>startRunTracking\<close>: both watchers are stopped first, then started.\<close>

definition startRunTracking :: "bool \<Rightarrow> fg_outcome \<Rightarrow> state \<Rightarrow> bool \<times> state" where
  "startRunTracking bg fg st =
     (let st1 = stopBackgroundLocationTracking (stopLocationTracking st);
          (backgroundStarted, st2) = startBackgroundLocationTracking bg st1;
          (foregroundStarted, st3) = startLocationTracking fg st2
      in if \<not> foregroundStarted then (False, stopBackgroundLocationTracking st3)
         else (True, st3))"

definition stopRunTracking :: "state \<Rightarrow> state" where
  "stopRunTracking st =
     (stopBackgroundLocationTracking (stopLocationTracking st))
       \<lparr>gpsMonitor := None, svc_lastLocationTime := 0\<rparr>"

subsection \<open>Recovery, ticks and periodic saves (\<open>TrackingScreen\<close> effects)\<close>

text \<open>
  \<open>loadExistingTrackingData\<close>, the mount effect: a stored snapshot with \<open>isTracking\<close>
  is taken over, and the pause starts at the clock reading of the recovery.
\<close>

definition loadExistingTrackingData :: "int \<Rightarrow> state \<Rightarrow> state" where
  "loadExistingTrackingData now st =
     (case stored st of
        None \<Rightarrow> st
      | Some existingData \<Rightarrow>
          if snap_isTracking existingData then
            st\<lparr> isTracking := True,
                isPaused := True,
                startTime := Some (snap_startTime existingData),
                currentRunId := Some (snap_id existingData),
                route := snap_route existingData,
                currentSegmentIndex := orElse (snap_currentSegmentIndex existingData) 0,
                currentSegmentStartTime :=
                  Some (orElse (snap_currentSegmentStartTime existingData)
                               (snap_startTime existingData)),
                elapsedTime := orElse (snap_elapsedTime existingData) 0,
                totalPausedTime := orElse (snap_totalPausedTime existingData) 0,
                pauseStartTime := Some now \<rparr>
          else st)"

text \<open>
  The 300 ms interval exists only while \<open>isTracking && !isPaused && startTime\<close>; one
  firing of it is \<open>tick\<close>. \<open>Math.floor\<close> of the quotient is \<open>div\<close> on \<open>int\<close>.
\<close>

definition tick :: "int \<Rightarrow> state \<Rightarrow> state" where
  "tick now st =
     (if isTracking st \<and> \<not> isPaused st \<and> truthy (startTime st) then
        st\<lparr>elapsedTime := (now - the (startTime st) - totalPausedTime st) div 1000\<rparr>
      else st)"

text \<open>
  The 5 s save interval, which exists only while tracking with a run id. Its effect is
  re-created when any saved variable but \<open>elapsedTime\<close> changes, so the \<open>elapsedTime\<close> it
  saves is the one of the render that created the interval, \<open>capturedElapsedTime\<close>.
\<close>

definition periodicSave :: "int \<Rightarrow> state \<Rightarrow> state" where
  "periodicSave capturedElapsedTime st =
     (case (currentRunId st, startTime st) of
        (Some runId, Some t0) \<Rightarrow>
          if isTracking st \<and> \<not> isPaused st then
            st\<lparr>stored := Some \<lparr> snap_id = runId, snap_startTime = t0, snap_route = route st,
                snap_isTracking = True, snap_isPaused = False,
                snap_currentSegmentIndex = Some (currentSegmentIndex st),
                snap_totalPausedTime = Some (totalPausedTime st),
                snap_pauseStartTime = None,
                snap_currentSegmentStartTime = currentSegmentStartTime st,
                snap_elapsedTime = Some capturedElapsedTime,
                snap_lastBackgroundUpdate = None \<rparr>\<rparr>
          else st
      | _ \<Rightarrow> st)"

subsection \<open>The foreground source\<close>

text \<open>
  \<open>handleLocationUpdate\<close> is created once (\<open>useCallback\<close> with no dependencies): the
  \<open>totalPausedTime\<close> and \<open>elapsedTime\<close> it writes into the snapshot are those of the
  first render, 0 and 0.
\<close>

definition handleLocationUpdate :: "int \<Rightarrow> UserLocation \<Rightarrow> state \<Rightarrow> state" where
  "handleLocationUpdate now location st =
     (if isLocationUpdateInProgress st then st
      else if \<not> isTracking st \<or> isPaused st then st\<lparr>userLocation := Some location\<rparr>
      else
        let timeSinceLastUpdate = now - lastLocationTime st;
            hasGoodAccuracy = (\<not> truthy (ul_accuracy location)
                                \<or> the (ul_accuracy location) \<le> 50)
        in if timeSinceLastUpdate < 500 \<or> \<not> hasGoodAccuracy then st
           else
             let newPoint = \<lparr> latitude = ul_latitude location,
                              longitude = ul_longitude location,
                              altitude = ul_altitude location,
                              accuracy = ul_accuracy location,
                              timestamp = Some (orElse (ul_timestamp location) now),
                              source = Some Foreground,
                              segmentIndex = Some (currentSegmentIndex st) \<rparr>;
                 updatedRoute = route st @ [newPoint];
                 saved =
                   (case (currentRunId st, startTime st) of
                      (Some runId, Some runStartTime) \<Rightarrow>
                        if runStartTime \<noteq> 0 then
                          Some \<lparr> snap_id = runId, snap_startTime = runStartTime,
                                 snap_route = updatedRoute,
                                 snap_isTracking = True, snap_isPaused = False,
                                 snap_currentSegmentIndex = Some (currentSegmentIndex st),
                                 snap_totalPausedTime = Some 0,
                                 snap_pauseStartTime = None,
                                 snap_currentSegmentStartTime = currentSegmentStartTime st,
                                 snap_elapsedTime = Some 0,
                                 snap_lastBackgroundUpdate = None \<rparr>
                        else stored st
                    | _ \<Rightarrow> stored st)
             in st\<lparr> lastLocationTime := now,
                    route := updatedRoute,
                    stored := saved,
                    userLocation := Some location,
                    isLocationUpdateInProgress := False \<rparr>)"

text \<open>
  The callback that \<open>startLocationTracking\<close> hands to \<open>watchPositionAsync\<close>; it runs
  only while the subscription exists.
\<close>

definition onForegroundFix :: "int \<Rightarrow> LocationObject \<Rightarrow> state \<Rightarrow> state" where
  "onForegroundFix now location st =
     (if \<not> fgWatching st then st
      else
        let ts = (if lo_timestamp location = 0 then now else lo_timestamp location)
        in if ts - svc_lastLocationTime st < 800 then st
           else if truthy (lo_accuracy location) \<and> the (lo_accuracy location) > 25 then st
           else if lo_latitude location = 0 \<or> lo_longitude location = 0
                   \<or> \<bar>lo_latitude location\<bar> > 90 \<or> \<bar>lo_longitude location\<bar> > 180 then st
           else
             handleLocationUpdate now
               \<lparr> ul_latitude = lo_latitude location,
                 ul_longitude = lo_longitude location,
                 ul_accuracy = orUndefined (lo_accuracy location),
                 ul_altitude = orUndefined (lo_altitude location),
                 ul_timestamp = Some ts,
                 ul_speed = orUndefined (lo_speed location),
                 ul_heading = orUndefined (lo_heading location) \<rparr>
               (st\<lparr>svc_lastLocationTime := ts\<rparr>))"

subsection \<open>The background source (\<open>backgroundTask\<close>)\<close>

definition bgKeep :: "int \<Rightarrow> int \<Rightarrow> LocationObject \<Rightarrow> bool" where
  "bgKeep now lastProcessed location \<longleftrightarrow>
     \<not> (truthy (lo_accuracy location) \<and> the (lo_accuracy location) > 25)
     \<and> \<not> (lo_timestamp location \<noteq> 0 \<and> now - lo_timestamp location > 15000)
     \<and> \<not> (lo_timestamp location \<noteq> 0 \<and> lo_timestamp location \<le> lastProcessed)
     \<and> \<not> (lo_latitude location = 0 \<or> lo_longitude location = 0
           \<or> \<bar>lo_latitude location\<bar> > 90 \<or> \<bar>lo_longitude location\<bar> > 180)"

text \<open>A processed point carries no \<open>segmentIndex\<close>.\<close>

definition bgPoint :: "int \<Rightarrow> LocationObject \<Rightarrow> RouteCoordinate" where
  "bgPoint now location =
     \<lparr> latitude = lo_latitude location,
       longitude = lo_longitude location,
       altitude = orUndefined (lo_altitude location),
       accuracy = orUndefined (lo_accuracy location),
       timestamp = Some (if lo_timestamp location = 0 then now else lo_timestamp location),
       source = Some Background,
       segmentIndex = None \<rparr>"

text \<open>
  The task body. The filter reads \<open>lastProcessedTimestamp\<close> as it was when the task
  began; the map that follows raises it to the largest timestamp it sees.
\<close>

definition backgroundTask :: "int \<Rightarrow> bool \<Rightarrow> LocationObject list option \<Rightarrow> state \<Rightarrow> state" where
  "backgroundTask now err data st =
     (if err then st
      else case data of
        None \<Rightarrow> st
      | Some locations \<Rightarrow>
          if locations = [] then st
          else (case stored st of
            None \<Rightarrow> st
          | Some currentTrackingData \<Rightarrow>
              if \<not> snap_isTracking currentTrackingData \<or> snap_isPaused currentTrackingData
              then st
              else
                let filteredLocations =
                      filter (bgKeep now (lastProcessedTimestamp st)) locations
                in if filteredLocations = [] then st
                   else
                     let processedPoints = map (bgPoint now) filteredLocations;
                         lastProcessed =
                           foldl (\<lambda>l p. if the (timestamp p) > l then the (timestamp p) else l)
                                 (lastProcessedTimestamp st) processedPoints;
                         existingTimestamps =
                           map timestamp
                               (filter (\<lambda>point. truthy (timestamp point))
                                       (snap_route currentTrackingData));
                         newPoints =
                           filter (\<lambda>point. timestamp point \<notin> set existingTimestamps)
                                  processedPoints;
                         st1 = st\<lparr>lastProcessedTimestamp := lastProcessed\<rparr>
                     in if newPoints = [] then st1
                        else st1\<lparr>stored := Some (currentTrackingData
                                  \<lparr> snap_route := snap_route currentTrackingData @ newPoints,
                                    snap_lastBackgroundUpdate := Some now \<rparr>)\<rparr>))"

subsection \<open>Start, pause and resume, stop, quit (\<open>TrackingScreen\<close> handlers)\<close>

text \<open>
  \<open>handleStartRun\<close> as created in render \<open>r\<close>. \<open>hasPermissions\<close> and \<open>granted\<close> are
  the answers of \<open>hasRunTrackingPermissions\<close> and \<open>requestRunTrackingPermissions\<close>;
  \<open>bg\<close> and \<open>fg\<close> say how the two watchers start. It reads no state variable (there is
  no test of \<open>isTracking\<close>); the render matters only for the \<open>handleGpsDisabled\<close> it
  hands to the GPS monitor.
\<close>

definition handleStartRunOf ::
  "render \<Rightarrow> int \<Rightarrow> bool \<Rightarrow> bool \<Rightarrow> bool \<Rightarrow> fg_outcome \<Rightarrow> state \<Rightarrow> state" where
  "handleStartRunOf r now hasPermissions granted bg fg st =
     (if \<not> hasPermissions \<and> \<not> granted then st
      else
        let st1 = st\<lparr> isTracking := True,
                      isPaused := False,
                      startTime := Some now,
                      currentRunId := Some (RunId now),
                      route := [],
                      currentSegmentIndex := 0,
                      currentSegmentStartTime := Some now,
                      segments := [],
                      elapsedTime := 0,
                      totalPausedTime := 0,
                      pauseStartTime := None,
                      stored := Some \<lparr> snap_id = RunId now, snap_startTime = now,
                        snap_route = [], snap_isTracking = True, snap_isPaused = False,
                        snap_currentSegmentIndex = Some 0, snap_totalPausedTime = Some 0,
                        snap_pauseStartTime = None,
                        snap_currentSegmentStartTime = Some now,
                        snap_elapsedTime = Some 0, snap_lastBackgroundUpdate = None \<rparr>,
                      lastLocationTime := now,
                      isLocationUpdateInProgress := False \<rparr>;
            (trackingStarted, st2) = startRunTracking bg fg st1
        in if \<not> trackingStarted then
             st2\<lparr> isTracking := False,
                  isPaused := False,
                  startTime := None,
                  currentRunId := None,
                  route := [],
                  currentSegmentIndex := 0,
                  elapsedTime := 0,
                  totalPausedTime := 0,
                  pauseStartTime := None,
                  stored := None \<rparr>
           else st2\<lparr>gpsMonitor := Some r\<rparr>)"

text \<open>The Start button calls the handler of the current render.\<close>

definition handleStartRun :: "int \<Rightarrow> bool \<Rightarrow> bool \<Rightarrow> bool \<Rightarrow> fg_outcome \<Rightarrow> state \<Rightarrow> state" where
  "handleStartRun now hasPermissions granted bg fg st =
     handleStartRunOf (renderOf st) now hasPermissions granted bg fg st"

text \<open>
  \<open>handlePauseResume\<close> as created in render \<open>r\<close>, one handler for both buttons: it
  resumes when \<open>isPaused\<close> and pauses otherwise. What it tests and what it writes into
  the snapshot are the variables of \<open>r\<close> (so after a resume the snapshot still carries
  the old segment index, segment start and total paused time); the functional updates
  \<open>setTotalPausedTime(prev => ...)\<close> and \<open>setSegments(prev => ...)\<close> work on the live
  values.
\<close>

definition handlePauseResumeOf :: "render \<Rightarrow> int \<Rightarrow> bool \<Rightarrow> fg_outcome \<Rightarrow> state \<Rightarrow> state" where
  "handlePauseResumeOf r now bg fg st =
     (let saved =
            (case r_currentRunId r of
               Some runId \<Rightarrow>
                 if truthy (r_startTime r) then
                   Some \<lparr> snap_id = runId, snap_startTime = the (r_startTime r),
                          snap_route = r_route r,
                          snap_isTracking = True, snap_isPaused = (\<not> r_isPaused r),
                          snap_currentSegmentIndex = Some (r_currentSegmentIndex r),
                          snap_totalPausedTime = Some (r_totalPausedTime r),
                          snap_pauseStartTime = (if \<not> r_isPaused r then Some now else None),
                          snap_currentSegmentStartTime = r_currentSegmentStartTime r,
                          snap_elapsedTime = Some (r_elapsedTime r),
                          snap_lastBackgroundUpdate = None \<rparr>
                 else stored st
             | None \<Rightarrow> stored st)
      in if r_isPaused r then
           if \<not> servicesEnabled (r_gpsStatus r) \<or> gps_permission (r_gpsStatus r) \<noteq> Granted
           then st
           else
             let st1 = (if truthy (r_pauseStartTime r) then
                          st\<lparr> totalPausedTime :=
                                totalPausedTime st + (now - the (r_pauseStartTime r)),
                              pauseStartTime := None \<rparr>
                        else st);
                 st2 = st1\<lparr> isPaused := False,
                            lastLocationTime := now,
                            currentSegmentIndex := r_currentSegmentIndex r + 1,
                            currentSegmentStartTime := Some now \<rparr>;
                 (trackingStarted, st3) = startRunTracking bg fg st2;
                 st4 = (if trackingStarted then st3\<lparr>gpsMonitor := Some r\<rparr> else st3)
             in st4\<lparr>stored := saved\<rparr>
         else
           let st1 =
                 (if truthy (r_currentSegmentStartTime r) then
                    let currentSegmentCoords =
                          filter (\<lambda>coord. segmentIndex coord = Some (r_currentSegmentIndex r))
                                 (r_route r);
                        newSegment =
                          \<lparr> seg_segmentIndex = r_currentSegmentIndex r,
                            seg_coordinates = currentSegmentCoords,
                            seg_distance = calculateTotalDistance currentSegmentCoords,
                            seg_duration = (now - the (r_currentSegmentStartTime r)) div 1000,
                            seg_startTime = the (r_currentSegmentStartTime r),
                            seg_endTime = now \<rparr>
                    in st\<lparr>segments := segments st @ [newSegment]\<rparr>
                  else st);
               st2 = st1\<lparr>pauseStartTime := Some now, isPaused := True\<rparr>;
               st3 = stopRunTracking st2
           in st3\<lparr>stored := saved\<rparr>)"

text \<open>The Pause and Resume buttons call the handler of the current render.\<close>

definition handlePauseResume :: "int \<Rightarrow> bool \<Rightarrow> fg_outcome \<Rightarrow> state \<Rightarrow> state" where
  "handlePauseResume now bg fg st = handlePauseResumeOf (renderOf st) now bg fg st"

text \<open>
  \<open>handleStopAndReview\<close>, called by the Stop button from the current render: the state
  it leaves; the review screen takes it from there. It saves no snapshot.
\<close>

definition handleStopAndReview :: "int \<Rightarrow> state \<Rightarrow> state" where
  "handleStopAndReview now st =
     (if \<not> isPaused st then
        stopRunTracking (st\<lparr>pauseStartTime := Some now, isPaused := True\<rparr>)
      else st)"

definition stopTrackingAndCleanup :: "state \<Rightarrow> state" where
  "stopTrackingAndCleanup st =
     (stopRunTracking st)
       \<lparr> isTracking := False,
         isPaused := False,
         startTime := None,
         currentRunId := None,
         route := [],
         currentSegmentIndex := 0,
         elapsedTime := 0,
         totalPausedTime := 0,
         pauseStartTime := None,
         stored := None \<rparr>"

definition handleQuitRun :: "state \<Rightarrow> state" where
  "handleQuitRun st = stopTrackingAndCleanup st"

subsection \<open>GPS health\<close>

text \<open>
  \<open>handleGpsDisabled\<close> and \<open>handleGpsLost\<close> as created in render \<open>r\<close>: they raise the
  message, and pause (through the \<open>handlePauseResume\<close> of the same render) only when
  \<open>r\<close> was tracking and not paused.
\<close>

definition handleGpsDisabledOf :: "render \<Rightarrow> int \<Rightarrow> bool \<Rightarrow> fg_outcome \<Rightarrow> state \<Rightarrow> state" where
  "handleGpsDisabledOf r now bg fg st =
     (let st1 = st\<lparr>showGpsDisabledMessage := True\<rparr>
      in if r_isTracking r \<and> \<not> r_isPaused r then handlePauseResumeOf r now bg fg st1 else st1)"

definition handleGpsLostOf :: "render \<Rightarrow> int \<Rightarrow> bool \<Rightarrow> fg_outcome \<Rightarrow> state \<Rightarrow> state" where
  "handleGpsLostOf r now bg fg st =
     (let st1 = st\<lparr>showGpsDisabledMessage := True\<rparr>
      in if r_isTracking r \<and> \<not> r_isPaused r then handlePauseResumeOf r now bg fg st1 else st1)"

definition handleGpsRestored :: "state \<Rightarrow> state" where
  "handleGpsRestored st = st\<lparr>showGpsDisabledMessage := False\<rparr>"

text \<open>
  The 500 ms monitor of \<open>startGPSMonitoring\<close> finds the location services off: it calls
  the \<open>handleGpsDisabled\<close> it was started with, that of the render in which Start or
  Resume was pressed.
\<close>

definition gpsMonitorFires :: "int \<Rightarrow> bool \<Rightarrow> fg_outcome \<Rightarrow> state \<Rightarrow> state" where
  "gpsMonitorFires now bg fg st =
     (case gpsMonitor st of
        None \<Rightarrow> st
      | Some r \<Rightarrow> handleGpsDisabledOf r now bg fg st)"

text \<open>
  \<open>checkGPSStatus\<close> as created in render \<open>r\<close>: \<open>enabled\<close>, \<open>granted\<close> and \<open>askAgain\<close>
  are what the platform reports, \<open>location\<close> what \<open>getCurrentLocation\<close> returns. The
  status it compares with is the \<open>gpsStatus\<close> of \<open>r\<close>.
\<close>

definition checkGPSStatusOf ::
  "render \<Rightarrow> int \<Rightarrow> bool \<Rightarrow> bool \<Rightarrow> bool \<Rightarrow> UserLocation option \<Rightarrow> bool \<Rightarrow> fg_outcome
     \<Rightarrow> state \<Rightarrow> state" where
  "checkGPSStatusOf r now enabled granted askAgain location bg fg st =
     (let newGpsStatus = \<lparr> gps_permission = (if granted then Granted else Denied),
                           servicesEnabled = enabled, canAskAgain = askAgain \<rparr>;
          wasGpsGood = (servicesEnabled (r_gpsStatus r)
                        \<and> gps_permission (r_gpsStatus r) = Granted);
          isGpsGood = (enabled \<and> granted);
          st1 = (if wasGpsGood \<and> \<not> isGpsGood then handleGpsLostOf r now bg fg st
                 else if \<not> wasGpsGood \<and> isGpsGood then handleGpsRestored st
                 else st);
          st2 = st1\<lparr>gpsStatus := newGpsStatus\<rparr>
      in if granted \<and> enabled then
           (case location of
              Some l \<Rightarrow> st2\<lparr>userLocation := Some l, initialLocationLoaded := True\<rparr>
            | None \<Rightarrow> st2)
         else st2)"

text \<open>
  A check from the current render: \<open>handleDismissGpsMessage\<close> and
  \<open>requestLocationPermission\<close>, which the GPS status view calls.
\<close>

definition checkGPSStatus ::
  "int \<Rightarrow> bool \<Rightarrow> bool \<Rightarrow> bool \<Rightarrow> UserLocation option \<Rightarrow> bool \<Rightarrow> fg_outcome \<Rightarrow> state \<Rightarrow> state" where
  "checkGPSStatus now enabled granted askAgain location bg fg st =
     checkGPSStatusOf (renderOf st) now enabled granted askAgain location bg fg st"

text \<open>
  The 2 s poll and the focus effect are registered once, with the \<open>checkGPSStatus\<close> of
  the first render.
\<close>

definition pollGPSStatus ::
  "int \<Rightarrow> bool \<Rightarrow> bool \<Rightarrow> bool \<Rightarrow> UserLocation option \<Rightarrow> bool \<Rightarrow> fg_outcome \<Rightarrow> state \<Rightarrow> state" where
  "pollGPSStatus now enabled granted askAgain location bg fg st =
     checkGPSStatusOf firstRender now enabled granted askAgain location bg fg st"

text \<open>
  The 500 ms poll exists only while the \<open>gpsStatus\<close> state is not good. Its effect is
  re-created whenever \<open>gpsStatus\<close> is set, so its closure holds the live \<open>gpsStatus\<close>.
\<close>

definition pollGPSStatusWhileBad ::
  "int \<Rightarrow> bool \<Rightarrow> bool \<Rightarrow> bool \<Rightarrow> UserLocation option \<Rightarrow> bool \<Rightarrow> fg_outcome \<Rightarrow> state \<Rightarrow> state" where
  "pollGPSStatusWhileBad now enabled granted askAgain location bg fg st =
     (if \<not> servicesEnabled (gpsStatus st) \<or> gps_permission (gpsStatus st) \<noteq> Granted then
        checkGPSStatusOf (renderOf st) now enabled granted askAgain location bg fg st
      else st)"

subsection \<open>The controls (\<open>TrackingControls\<close>)\<close>

text \<open>The buttons that are rendered; the flag of Pause and Resume is \<open>disabled\<close>.\<close>

datatype button = StartButton | PauseButton bool | StopButton | ResumeButton bool | CancelButton

definition controls :: "state \<Rightarrow> button list" where
  "controls st =
     (let gpsOff = (\<not> servicesEnabled (gpsStatus st) \<or> gps_permission (gpsStatus st) \<noteq> Granted)
      in if gpsOff \<and> \<not> isTracking st then []
         else (if \<not> isTracking st then [StartButton] else [])
              @ (if isTracking st \<and> \<not> isPaused st then [PauseButton gpsOff, StopButton] else [])
              @ (if isTracking st \<and> isPaused st then [ResumeButton gpsOff, CancelButton] else []))"

subsection \<open>Runs of the controller\<close>

text \<open>
  What can happen to the screen after it is mounted, each event with the clock reading
  and the platform's answers it consumes. The four buttons and \<open>CheckGPS\<close> (the GPS
  status view) call handlers of the current render; \<open>PollGPS\<close> and \<open>PollGPSWhileBad\<close>
  are the two polls, \<open>GpsDisabled\<close> is the GPS monitor finding the services off, and
  \<open>PeriodicSave\<close> carries the elapsed time its interval captured. A background task
  may still run when the updates have just been stopped, so it is not tied to
  \<open>bgWatching\<close>.
\<close>

datatype event =
    StartRun int bool bool bool fg_outcome
  | PauseResume int bool fg_outcome
  | StopAndReview int
  | QuitRun
  | Tick int
  | PeriodicSave int
  | ForegroundFix int LocationObject
  | BackgroundTask int bool "LocationObject list option"
  | CheckGPS int bool bool bool "UserLocation option" bool fg_outcome
  | PollGPS int bool bool bool "UserLocation option" bool fg_outcome
  | PollGPSWhileBad int bool bool bool "UserLocation option" bool fg_outcome
  | GpsDisabled int bool fg_outcome

fun step :: "state \<Rightarrow> event \<Rightarrow> state" where
  "step st (StartRun now hasPermissions granted bg fg) =
     handleStartRun now hasPermissions granted bg fg st"
| "step st (PauseResume now bg fg) = handlePauseResume now bg fg st"
| "step st (StopAndReview now) = handleStopAndReview now st"
| "step st QuitRun = handleQuitRun st"
| "step st (Tick now) = tick now st"
| "step st (PeriodicSave capturedElapsedTime) = periodicSave capturedElapsedTime st"
| "step st (ForegroundFix now location) = onForegroundFix now location st"
| "step st (BackgroundTask now err data) = backgroundTask now err data st"
| "step st (CheckGPS now enabled granted askAgain location bg fg) =
     checkGPSStatus now enabled granted askAgain location bg fg st"
| "step st (PollGPS now enabled granted askAgain location bg fg) =
     pollGPSStatus now enabled granted askAgain location bg fg st"
| "step st (PollGPSWhileBad now enabled granted askAgain location bg fg) =
     pollGPSStatusWhileBad now enabled granted askAgain location bg fg st"
| "step st (GpsDisabled now bg fg) = gpsMonitorFires now bg fg st"

text \<open>The clock reading of an event is a positive number of epoch milliseconds.\<close>

fun clockOk :: "event \<Rightarrow> bool" where
  "clockOk (StartRun now _ _ _ _) \<longleftrightarrow> 0 < now"
| "clockOk (PauseResume now _ _) \<longleftrightarrow> 0 < now"
| "clockOk (StopAndReview now) \<longleftrightarrow> 0 < now"
| "clockOk QuitRun \<longleftrightarrow> True"
| "clockOk (Tick now) \<longleftrightarrow> 0 < now"
| "clockOk (PeriodicSave _) \<longleftrightarrow> True"
| "clockOk (ForegroundFix now _) \<longleftrightarrow> 0 < now"
| "clockOk (BackgroundTask now _ _) \<longleftrightarrow> 0 < now"
| "clockOk (CheckGPS now _ _ _ _ _ _) \<longleftrightarrow> 0 < now"
| "clockOk (PollGPS now _ _ _ _ _ _) \<longleftrightarrow> 0 < now"
| "clockOk (PollGPSWhileBad now _ _ _ _ _ _) \<longleftrightarrow> 0 < now"
| "clockOk (GpsDisabled now _ _) \<longleftrightarrow> 0 < now"

text \<open>
  The screen is mounted over whatever the store holds, the mount effect runs at \<open>now0\<close>,
  and the events follow.
\<close>

definition mount :: "int \<Rightarrow> snapshot option \<Rightarrow> state" where
  "mount now0 s = loadExistingTrackingData now0 (initialState s)"

definition run :: "int \<Rightarrow> snapshot option \<Rightarrow> event list \<Rightarrow> state" where
  "run now0 s evs = foldl step (mount now0 s) evs"

subsection \<open>Example inputs\<close>

text \<open>A snapshot written while tracking (not paused), as a killed process leaves it.\<close>

definition snapTracking :: snapshot where
  "snapTracking =
     \<lparr> snap_id = RunId 1000, snap_startTime = 1000, snap_route = [],
       snap_isTracking = True, snap_isPaused = False,
       snap_currentSegmentIndex = Some 0, snap_totalPausedTime = Some 0,
       snap_pauseStartTime = None, snap_currentSegmentStartTime = Some 1000,
       snap_elapsedTime = Some 3, snap_lastBackgroundUpdate = None \<rparr>"

text \<open>A fix of good accuracy, stamped 2500.\<close>

definition fixA :: LocationObject where
  "fixA = \<lparr> lo_latitude = 50, lo_longitude = 30, lo_altitude = Some 120,
             lo_accuracy = Some 5, lo_speed = None, lo_heading = None,
             lo_timestamp = 2500 \<rparr>"

text \<open>A fix of good accuracy, stamped 4900.\<close>

definition fixB :: LocationObject where
  "fixB = \<lparr> lo_latitude = 50, lo_longitude = 30, lo_altitude = Some 120,
             lo_accuracy = Some 5, lo_speed = None, lo_heading = None,
             lo_timestamp = 4900 \<rparr>"

text \<open>
  The screen is mounted at 1000 over an empty store, GPS is found available at 1500
  and a run is started at 2000 with both watchers running.
\<close>

definition evsStarted :: "event list" where
  "evsStarted = [CheckGPS 1500 True True True None False FgRefused,
                 StartRun 2000 True False True FgStarted]"

definition stStarted :: state where
  "stStarted = run 1000 None evsStarted"

text \<open>Then the foreground watcher delivers \<open>fixA\<close> at 3000.\<close>

definition evsActive :: "event list" where
  "evsActive = evsStarted @ [ForegroundFix 3000 fixA]"

definition stActive :: state where
  "stActive = run 1000 None evsActive"

text \<open>Then the run is paused at 4000.\<close>

definition evsPaused :: "event list" where
  "evsPaused = evsActive @ [PauseResume 4000 False FgRefused]"

definition stPaused :: state where
  "stPaused = run 1000 None evsPaused"

text \<open>Then location services are found switched off at 4500.\<close>

definition evsPausedNoGps :: "event list" where
  "evsPausedNoGps = evsPaused @ [CheckGPS 4500 False True True None False FgRefused]"

definition stPausedNoGps :: state where
  "stPausedNoGps = run 1000 None evsPausedNoGps"

text \<open>
  A run that is paused at 3000 before any fix, resumed at 4000, and receives its first
  fix, \<open>fixB\<close>, at 5000.
\<close>

definition evsGap :: "event list" where
  "evsGap = evsStarted @ [PauseResume 3000 False FgRefused,
                          PauseResume 4000 True FgStarted,
                          ForegroundFix 5000 fixB]"

definition stGap :: state where
  "stGap = run 1000 None evsGap"

text \<open>
  The run of \<open>stPaused\<close>, resumed at 5000, to which the restarted foreground watcher
  delivers \<open>fixA\<close> once more at 6000.
\<close>

definition evsRedelivered :: "event list" where
  "evsRedelivered = evsPaused @ [PauseResume 5000 True FgStarted, ForegroundFix 6000 fixA]"

definition stRedelivered :: state where
  "stRedelivered = run 1000 None evsRedelivered"

text \<open>
  The started run; the background task processes \<open>fixA\<close> at 2700, then the foreground
  watcher delivers the same fix at 3000.
\<close>

definition evsBackgroundFirst :: "event list" where
  "evsBackgroundFirst = evsStarted @ [BackgroundTask 2700 False (Some [fixA])]"

definition stBackgroundFirst :: state where
  "stBackgroundFirst = run 1000 None evsBackgroundFirst"

definition evsBoth :: "event list" where
  "evsBoth = evsBackgroundFirst @ [ForegroundFix 3000 fixA]"

definition stBoth :: state where
  "stBoth = run 1000 None evsBoth"

text \<open>A fix of good accuracy, stamped 3900.\<close>

definition fixC :: LocationObject where
  "fixC = \<lparr> lo_latitude = 50, lo_longitude = 30, lo_altitude = Some 120,
             lo_accuracy = Some 5, lo_speed = None, lo_heading = None,
             lo_timestamp = 3900 \<rparr>"

text \<open>A fix of good accuracy, stamped 5100.\<close>

definition fixD :: LocationObject where
  "fixD = \<lparr> lo_latitude = 50, lo_longitude = 30, lo_altitude = Some 120,
             lo_accuracy = Some 5, lo_speed = None, lo_heading = None,
             lo_timestamp = 5100 \<rparr>"

text \<open>The state after the GPS check at 1500, before any run.\<close>

definition evsChecked :: "event list" where
  "evsChecked = [CheckGPS 1500 True True True None False FgRefused]"

definition stChecked :: state where
  "stChecked = run 1000 None evsChecked"

text \<open>
  The active run of \<open>stActive\<close>, on which Stop is pressed at 4000; then a background
  task that was already on its way processes \<open>fixC\<close> at 4050.
\<close>

definition evsStopped :: "event list" where
  "evsStopped = evsActive @ [StopAndReview 4000]"

definition stStopped :: state where
  "stStopped = run 1000 None evsStopped"

definition evsStoppedBackground :: "event list" where
  "evsStoppedBackground = evsStopped @ [BackgroundTask 4050 False (Some [fixC])]"

definition stStoppedBackground :: state where
  "stStoppedBackground = run 1000 None evsStoppedBackground"

text \<open>
  The screen mounted at 5000 over \<open>snapTracking\<close>; then the background task processes
  \<open>fixD\<close> at 5200.
\<close>

definition stRecovered :: state where
  "stRecovered = run 5000 (Some snapTracking) []"

definition evsRecoveredBackground :: "event list" where
  "evsRecoveredBackground = [BackgroundTask 5200 False (Some [fixD])]"

definition stRecoveredBackground :: state where
  "stRecoveredBackground = run 5000 (Some snapTracking) evsRecoveredBackground"

text \<open>
  The paused run of \<open>stPaused\<close>, on which Resume is pressed at 5000 while the location
  permission or services have just been withdrawn: the last polled \<open>gpsStatus\<close> is still
  good, and the foreground watcher's own check refuses.
\<close>

definition evsResumeRefused :: "event list" where
  "evsResumeRefused = evsPaused @ [PauseResume 5000 True FgRefused]"

definition stResumeRefused :: state where
  "stResumeRefused = run 1000 None evsResumeRefused"

text \<open>A start at 2000 in which the background watcher does not start.\<close>

definition evsBackgroundFailed :: "event list" where
  "evsBackgroundFailed = evsChecked @ [StartRun 2000 True False False FgStarted]"

definition stBackgroundFailed :: state where
  "stBackgroundFailed = run 1000 None evsBackgroundFailed"

text \<open>A start at 2000 in which the foreground watcher is refused.\<close>

definition evsStartRefused :: "event list" where
  "evsStartRefused = evsChecked @ [StartRun 2000 True False True FgRefused]"

definition stStartRefused :: state where
  "stStartRefused = run 1000 None evsStartRefused"

subsection \<open>Invariants of a run\<close>

text \<open>A recorded pause start is a positive clock reading.\<close>

definition pausePositive :: "state \<Rightarrow> bool" where
  "pausePositive st \<longleftrightarrow> (case pauseStartTime st of None \<Rightarrow> True | Some p \<Rightarrow> 0 < p)"

text \<open>No recorded coordinate lies in a segment beyond the current one.\<close>

definition routeBounded :: "state \<Rightarrow> bool" where
  "routeBounded st \<longleftrightarrow> (\<forall>c\<in>set (route st). segmentIndexOr0 c \<le> currentSegmentIndex st)"

definition snapshotBounded :: "snapshot option \<Rightarrow> bool" where
  "snapshotBounded s \<longleftrightarrow>
     (case s of
        None \<Rightarrow> True
      | Some d \<Rightarrow> \<forall>c\<in>set (snap_route d).
                    segmentIndexOr0 c \<le> orElse (snap_currentSegmentIndex d) 0)"

section \<open>Properties\<close>

subsection \<open>Evaluation\<close>

lemmas svc_defs = stopLocationTracking_def stopBackgroundLocationTracking_def
  startBackgroundLocationTracking_def startLocationTracking_def startRunTracking_def
  stopRunTracking_def

lemmas eval_defs = handleStartRun_def handleStartRunOf_def handlePauseResume_def
  handlePauseResumeOf_def handleStopAndReview_def stopTrackingAndCleanup_def
  handleQuitRun_def handleGpsDisabledOf_def handleGpsLostOf_def gpsMonitorFires_def
  handleGpsRestored_def checkGPSStatus_def checkGPSStatusOf_def pollGPSStatus_def
  pollGPSStatusWhileBad_def renderOf_def firstRender_def tick_def periodicSave_def
  handleLocationUpdate_def onForegroundFix_def backgroundTask_def bgKeep_def bgPoint_def
  loadExistingTrackingData_def mount_def run_def initialState_def
  truthy_def orElse_def orUndefined_def gpsGood_def Let_def svc_defs

lemmas example_defs = stStarted_def evsStarted_def stActive_def evsActive_def
  stPaused_def evsPaused_def stPausedNoGps_def evsPausedNoGps_def stGap_def evsGap_def
  stRedelivered_def evsRedelivered_def stBackgroundFirst_def evsBackgroundFirst_def
  stBoth_def evsBoth_def stChecked_def evsChecked_def stStopped_def evsStopped_def
  stStoppedBackground_def evsStoppedBackground_def stRecovered_def
  stRecoveredBackground_def evsRecoveredBackground_def stResumeRefused_def
  evsResumeRefused_def stBackgroundFailed_def evsBackgroundFailed_def
  stStartRefused_def evsStartRefused_def snapTracking_def
  fixA_def fixB_def fixC_def fixD_def

lemma startRunTracking_ok: "fst (startRunTracking bg fg st) \<longleftrightarrow> fg = FgStarted"
  by (cases fg) (simp_all add: svc_defs Let_def)

subsection \<open>Recovery\<close>

text \<open>
  C1. Whenever the stored snapshot has \<open>isTracking\<close> set, the session that the mount
  effect reconstructs at startup is tracked and paused, whatever the snapshot's own
  \<open>isPaused\<close> flag says, and neither location watcher is running.
\<close>

theorem recovery_always_paused:
  assumes "snap_isTracking s"
  shows "isTracking (mount now (Some s)) \<and> isPaused (mount now (Some s))
         \<and> \<not> fgWatching (mount now (Some s)) \<and> \<not> bgWatching (mount now (Some s))"
  using assms by (simp add: mount_def loadExistingTrackingData_def initialState_def)

theorem recovery_always_paused_witness:
  "snap_isTracking snapTracking \<and> \<not> snap_isPaused snapTracking
   \<and> isTracking (mount 5000 (Some snapTracking)) \<and> isPaused (mount 5000 (Some snapTracking))"
  using recovery_always_paused [of snapTracking 5000] by (simp add: snapTracking_def)

subsection \<open>Ingestion only while tracking\<close>

lemma handleLocationUpdate_idle:
  "\<not> isTracking st \<or> isPaused st \<Longrightarrow>
   handleLocationUpdate now location st =
     (if isLocationUpdateInProgress st then st else st\<lparr>userLocation := Some location\<rparr>)"
  by (simp add: handleLocationUpdate_def)

lemma onForegroundFix_idle:
  "\<not> isTracking st \<or> isPaused st \<Longrightarrow>
   route (onForegroundFix now fix st) = route st
   \<and> stored (onForegroundFix now fix st) = stored st"
  by (simp add: onForegroundFix_def Let_def handleLocationUpdate_idle)

lemma backgroundTask_idle:
  "(case stored st of None \<Rightarrow> True | Some d \<Rightarrow> \<not> snap_isTracking d \<or> snap_isPaused d) \<Longrightarrow>
   backgroundTask now err data st = st"
  by (cases "stored st") (simp_all add: backgroundTask_def split: option.splits)

text \<open>
  What the two guards give. The foreground handler, alone or behind the watcher's
  callback, leaves the route and the stored snapshot as they are when the session is
  absent or paused. The background task tests the flags of the stored snapshot, not
  the session: it does nothing when there is no snapshot or the snapshot is not
  tracking or is paused.
\<close>

lemma ingestion_guards:
  "(\<not> isTracking st \<or> isPaused st \<longrightarrow>
      route (handleLocationUpdate now location st) = route st
      \<and> stored (handleLocationUpdate now location st) = stored st
      \<and> route (onForegroundFix now fx st) = route st
      \<and> stored (onForegroundFix now fx st) = stored st)
   \<and> ((case stored st of None \<Rightarrow> True
        | Some d \<Rightarrow> \<not> snap_isTracking d \<or> snap_isPaused d) \<longrightarrow>
      backgroundTask now err data st = st)"
  by (simp add: handleLocationUpdate_idle onForegroundFix_idle backgroundTask_idle)

text \<open>
  C5 does not hold of the background source. Stop-and-review pauses the session without
  saving a snapshot, so the stored snapshot still says tracking and not paused, as the
  last foreground save left it. A background task that runs then (here at 4050, with a
  fix taken at 3900) passes its guard and appends the fix to the stored coordinate list
  of a session that is paused.
\<close>

theorem background_appends_while_paused:
  "evsStopped = evsActive @ [StopAndReview 4000]
   \<and> isTracking stStopped \<and> isPaused stStopped
   \<and> map_option (\<lambda>d. (snap_isTracking d, snap_isPaused d)) (stored stStopped)
       = Some (True, False)
   \<and> map_option (\<lambda>d. map (\<lambda>c. (timestamp c, source c)) (snap_route d)) (stored stStopped)
       = Some [(Some 2500, Some Foreground)]
   \<and> evsStoppedBackground = evsStopped @ [BackgroundTask 4050 False (Some [fixC])]
   \<and> lo_timestamp fixC = 3900
   \<and> isTracking stStoppedBackground \<and> isPaused stStoppedBackground
   \<and> map_option (\<lambda>d. map (\<lambda>c. (timestamp c, source c)) (snap_route d))
        (stored stStoppedBackground)
       = Some [(Some 2500, Some Foreground), (Some 3900, Some Background)]"
  by (simp add: example_defs eval_defs)

text \<open>
  The same after recovery: the session is reconstructed paused, the snapshot it was
  read from is not rewritten and still says tracking and not paused, and a background
  task appends to the stored coordinate list.
\<close>

lemma background_appends_after_recovery:
  "isTracking stRecovered \<and> isPaused stRecovered
   \<and> map_option (\<lambda>d. (snap_isTracking d, snap_isPaused d, snap_route d)) (stored stRecovered)
       = Some (True, False, [])
   \<and> isPaused stRecoveredBackground
   \<and> map_option (\<lambda>d. map (\<lambda>c. (timestamp c, source c)) (snap_route d))
        (stored stRecoveredBackground)
       = Some [(Some 5100, Some Background)]"
  by (simp add: example_defs eval_defs)

subsection \<open>Elapsed time\<close>

text \<open>
  C7, as the claim words it, fails: the tick stores whole seconds, not the millisecond
  difference. Nine seconds into a run the difference is 9000 and the stored value 9.
\<close>

theorem elapsed_milliseconds_counterexample:
  "isTracking stStarted \<and> \<not> isPaused stStarted
   \<and> startTime stStarted = Some 2000 \<and> totalPausedTime stStarted = 0
   \<and> elapsedTime (tick 11000 stStarted) = 9
   \<and> elapsedTime (tick 11000 stStarted) \<noteq> 11000 - 2000 - 0"
  by (simp add: example_defs eval_defs)

text \<open>
  C7, amended. While the session is tracking (with a non-zero start time) a tick sets the
  elapsed time to the whole seconds in \<open>now - startTime - totalPausedTime\<close>; while it is
  paused a tick changes nothing.
\<close>

theorem tick_elapsed_seconds:
  "(isTracking st \<and> \<not> isPaused st \<and> startTime st = Some t0 \<and> t0 \<noteq> 0 \<longrightarrow>
      elapsedTime (tick now st) = (now - t0 - totalPausedTime st) div 1000)
   \<and> (isPaused st \<longrightarrow> tick now st = st)"
  by (simp add: tick_def truthy_def)

theorem tick_elapsed_seconds_witness:
  "isTracking stStarted \<and> \<not> isPaused stStarted \<and> startTime stStarted = Some 2000
   \<and> elapsedTime (tick 11000 stStarted) = (11000 - 2000 - totalPausedTime stStarted) div 1000
   \<and> isPaused stPaused \<and> tick 11000 stPaused = stPaused"
proof -
  have h1: "isTracking stStarted \<and> \<not> isPaused stStarted \<and> startTime stStarted = Some 2000
            \<and> (2000::int) \<noteq> 0"
    by (simp add: example_defs eval_defs)
  have h2: "isPaused stPaused"
    by (simp add: example_defs eval_defs)
  show ?thesis
    using tick_elapsed_seconds [of stStarted 2000 11000] tick_elapsed_seconds [of stPaused 0 11000]
      h1 h2
    by blast
qed

subsection \<open>A failed start\<close>

text \<open>
  C9, as the claim words it, fails twice. When only the background watcher fails to
  start, \<open>startRunTracking\<close> reports success and nothing is rolled back: the run is
  tracking on the foreground watcher alone, with its snapshot stored. And when the
  foreground watcher is refused, the rollback leaves two variables of the attempt
  behind: \<open>currentSegmentStartTime\<close> and the \<open>lastLocationTime\<close> ref hold 2000, where
  before the attempt they were empty and 0.
\<close>

theorem failed_start_counterexample:
  "evsBackgroundFailed = evsChecked @ [StartRun 2000 True False False FgStarted]
   \<and> isTracking stBackgroundFailed \<and> \<not> bgWatching stBackgroundFailed
   \<and> fgWatching stBackgroundFailed
   \<and> currentRunId stBackgroundFailed = Some (RunId 2000)
   \<and> stored stBackgroundFailed \<noteq> None
   \<and> evsStartRefused = evsChecked @ [StartRun 2000 True False True FgRefused]
   \<and> \<not> isTracking stStartRefused
   \<and> currentSegmentStartTime stChecked = None
   \<and> currentSegmentStartTime stStartRefused = Some 2000
   \<and> lastLocationTime stChecked = 0
   \<and> lastLocationTime stStartRefused = 2000"
  by (simp add: example_defs eval_defs)

text \<open>
  C9, amended. With the permissions in place, Start rolls back exactly when the
  foreground watcher does not start (the only watcher failure \<open>startRunTracking\<close>
  reports). The rollback leaves no session: not tracking, not paused, no start time, no
  run id, no coordinates, no segments, index and accumulators at zero, no pause start,
  the stored snapshot deleted and both watchers off; \<open>currentSegmentStartTime\<close> and the
  \<open>lastLocationTime\<close> ref keep the time of the attempt. When the foreground watcher
  starts, the run is tracking with its snapshot stored, whether or not the background
  watcher started.
\<close>

theorem failed_start_rolls_back:
  assumes "hasPermissions \<or> granted"
  shows "(fg \<noteq> FgStarted \<longrightarrow>
            \<not> isTracking (handleStartRun now hasPermissions granted bg fg st)
            \<and> \<not> isPaused (handleStartRun now hasPermissions granted bg fg st)
            \<and> startTime (handleStartRun now hasPermissions granted bg fg st) = None
            \<and> currentRunId (handleStartRun now hasPermissions granted bg fg st) = None
            \<and> route (handleStartRun now hasPermissions granted bg fg st) = []
            \<and> segments (handleStartRun now hasPermissions granted bg fg st) = []
            \<and> currentSegmentIndex (handleStartRun now hasPermissions granted bg fg st) = 0
            \<and> elapsedTime (handleStartRun now hasPermissions granted bg fg st) = 0
            \<and> totalPausedTime (handleStartRun now hasPermissions granted bg fg st) = 0
            \<and> pauseStartTime (handleStartRun now hasPermissions granted bg fg st) = None
            \<and> stored (handleStartRun now hasPermissions granted bg fg st) = None
            \<and> \<not> fgWatching (handleStartRun now hasPermissions granted bg fg st)
            \<and> \<not> bgWatching (handleStartRun now hasPermissions granted bg fg st)
            \<and> currentSegmentStartTime (handleStartRun now hasPermissions granted bg fg st)
                = Some now
            \<and> lastLocationTime (handleStartRun now hasPermissions granted bg fg st) = now)
         \<and> (fg = FgStarted \<longrightarrow>
            isTracking (handleStartRun now hasPermissions granted bg fg st)
            \<and> \<not> isPaused (handleStartRun now hasPermissions granted bg fg st)
            \<and> currentRunId (handleStartRun now hasPermissions granted bg fg st)
                = Some (RunId now)
            \<and> stored (handleStartRun now hasPermissions granted bg fg st) \<noteq> None
            \<and> fgWatching (handleStartRun now hasPermissions granted bg fg st)
            \<and> bgWatching (handleStartRun now hasPermissions granted bg fg st) = bg)"
  using assms
  by (cases fg; cases bg)
     (auto simp add: handleStartRun_def handleStartRunOf_def svc_defs Let_def)

theorem failed_start_rolls_back_witness:
  "FgRefused \<noteq> FgStarted
   \<and> \<not> isTracking (handleStartRun 2000 True False True FgRefused stChecked)
   \<and> currentRunId (handleStartRun 2000 True False True FgRefused stChecked) = None
   \<and> stored (handleStartRun 2000 True False True FgRefused stChecked) = None
   \<and> currentSegmentStartTime (handleStartRun 2000 True False True FgRefused stChecked)
       = Some 2000
   \<and> isTracking (handleStartRun 2000 True False False FgStarted stChecked)
   \<and> \<not> bgWatching (handleStartRun 2000 True False False FgStarted stChecked)"
  using failed_start_rolls_back [of True False FgRefused 2000 True stChecked]
    failed_start_rolls_back [of True False FgStarted 2000 False stChecked]
  by simp

subsection \<open>Start on an active session\<close>

text \<open>
  C2, as the claim words it, fails: \<open>handleStartRun\<close> does not look at \<open>isTracking\<close>.
  Called at 9000 on the active run that began at 2000 and holds one coordinate, it
  returns a new run with a new id and an empty route.
\<close>

theorem start_replaces_active_session_counterexample:
  "isTracking stActive \<and> \<not> isPaused stActive
   \<and> currentRunId stActive = Some (RunId 2000) \<and> length (route stActive) = 1
   \<and> currentRunId (handleStartRun 9000 True False True FgStarted stActive) = Some (RunId 9000)
   \<and> route (handleStartRun 9000 True False True FgStarted stActive) = []
   \<and> handleStartRun 9000 True False True FgStarted stActive \<noteq> stActive"
proof -
  have a: "isTracking stActive \<and> \<not> isPaused stActive
     \<and> currentRunId stActive = Some (RunId 2000) \<and> length (route stActive) = 1"
    by (simp add: example_defs eval_defs)
  have b: "currentRunId (handleStartRun 9000 True False True FgStarted stActive)
             = Some (RunId 9000)
     \<and> route (handleStartRun 9000 True False True FgStarted stActive) = []"
    by (simp add: handleStartRun_def handleStartRunOf_def svc_defs Let_def)
  from a b have "currentRunId (handleStartRun 9000 True False True FgStarted stActive)
      \<noteq> currentRunId stActive" by simp
  then have "handleStartRun 9000 True False True FgStarted stActive \<noteq> stActive"
    by auto
  with a b show ?thesis by simp
qed

text \<open>
  C2, amended. While a session is active the controls do not render the Start button, so
  Start cannot be pressed; that is the only guard. \<open>handleStartRun\<close> itself leaves an
  active session unchanged only when the permissions are missing and refused; with the
  permissions in place and the foreground watcher started it replaces the session by a
  fresh one.
\<close>

theorem start_guarded_by_controls_only:
  assumes "isTracking st"
  shows "StartButton \<notin> set (controls st)
         \<and> handleStartRun now False False bg fg st = st
         \<and> (hasPermissions \<or> granted \<longrightarrow>
              isTracking (handleStartRun now hasPermissions granted bg FgStarted st)
              \<and> \<not> isPaused (handleStartRun now hasPermissions granted bg FgStarted st)
              \<and> currentRunId (handleStartRun now hasPermissions granted bg FgStarted st)
                  = Some (RunId now)
              \<and> startTime (handleStartRun now hasPermissions granted bg FgStarted st)
                  = Some now
              \<and> route (handleStartRun now hasPermissions granted bg FgStarted st) = [])"
  using assms
  by (auto simp add: controls_def handleStartRun_def handleStartRunOf_def svc_defs Let_def)

theorem start_guarded_by_controls_only_witness:
  "isTracking stActive
   \<and> StartButton \<notin> set (controls stActive)
   \<and> handleStartRun 9000 False False True FgStarted stActive = stActive
   \<and> route (handleStartRun 9000 True False True FgStarted stActive) = []"
proof -
  have h: "isTracking stActive"
    by (simp add: example_defs eval_defs)
  show ?thesis
    using start_guarded_by_controls_only [OF h, of 9000 True FgStarted True False] h
    by simp
qed

subsection \<open>Pause on a paused session\<close>

text \<open>
  C3, as the claim words it, fails: the handler behind the Pause button is the toggle
  \<open>handlePauseResume\<close>. On the paused run, with GPS available, a second call resumes:
  the session is no longer paused and a new segment is open.
\<close>

theorem pause_toggle_counterexample:
  "isTracking stPaused \<and> isPaused stPaused
   \<and> \<not> isPaused (handlePauseResume 5000 True FgStarted stPaused)
   \<and> currentSegmentIndex stPaused = 0
   \<and> currentSegmentIndex (handlePauseResume 5000 True FgStarted stPaused) = 1"
  by (simp add: example_defs eval_defs)

lemma resume_refused:
  "isPaused st \<Longrightarrow> \<not> gpsGood (gpsStatus st) \<Longrightarrow> handlePauseResume now bg fg st = st"
  by (auto simp add: handlePauseResume_def handlePauseResumeOf_def renderOf_def gpsGood_def)

lemma resume_unpauses:
  assumes "isPaused st" and "gpsGood (gpsStatus st)"
  shows "\<not> isPaused (handlePauseResume now bg fg st)
         \<and> currentSegmentIndex (handlePauseResume now bg fg st) = currentSegmentIndex st + 1
         \<and> currentSegmentStartTime (handlePauseResume now bg fg st) = Some now
         \<and> isTracking (handlePauseResume now bg fg st) = isTracking st"
  using assms
  by (cases fg)
     (simp_all add: handlePauseResume_def handlePauseResumeOf_def renderOf_def gpsGood_def
        svc_defs Let_def)

text \<open>
  C3, amended. There is no Pause operation of its own. The controls render the Pause
  button only while the session is tracking and not paused, and the handler behind the
  Pause and Resume buttons, \<open>handlePauseResume\<close>, is a toggle: called on a paused
  session it changes nothing when the last polled GPS status is not good, and
  otherwise it resumes (the session is no longer paused and the next segment is opened
  at \<open>now\<close>). The pause that Stop-and-review implies is skipped on a paused session.
\<close>

theorem pause_resume_toggle:
  assumes "isPaused st"
  shows "PauseButton b \<notin> set (controls st)
         \<and> (\<not> gpsGood (gpsStatus st) \<longrightarrow> handlePauseResume now bg fg st = st)
         \<and> (gpsGood (gpsStatus st) \<longrightarrow>
              \<not> isPaused (handlePauseResume now bg fg st)
              \<and> currentSegmentIndex (handlePauseResume now bg fg st)
                  = currentSegmentIndex st + 1
              \<and> currentSegmentStartTime (handlePauseResume now bg fg st) = Some now)
         \<and> handleStopAndReview now st = st"
proof -
  have a: "PauseButton b \<notin> set (controls st)"
    using assms by (simp add: controls_def Let_def)
  have d: "handleStopAndReview now st = st"
    using assms by (simp add: handleStopAndReview_def)
  show ?thesis
    using a d resume_refused [OF assms, of now bg fg] resume_unpauses [OF assms, of now bg fg]
    by blast
qed

theorem pause_resume_toggle_witness:
  "isPaused stPaused \<and> gpsGood (gpsStatus stPaused)
   \<and> \<not> isPaused (handlePauseResume 5000 True FgStarted stPaused)
   \<and> currentSegmentIndex (handlePauseResume 5000 True FgStarted stPaused)
       = currentSegmentIndex stPaused + 1
   \<and> isPaused stPausedNoGps \<and> \<not> gpsGood (gpsStatus stPausedNoGps)
   \<and> handlePauseResume 5000 True FgStarted stPausedNoGps = stPausedNoGps
   \<and> handleStopAndReview 5000 stPaused = stPaused"
proof -
  have h1: "isPaused stPaused \<and> gpsGood (gpsStatus stPaused)"
    by (simp add: example_defs eval_defs)
  have h2: "isPaused stPausedNoGps \<and> \<not> gpsGood (gpsStatus stPausedNoGps)"
    by (simp add: example_defs eval_defs)
  show ?thesis
    using pause_resume_toggle [of stPaused "False" 5000 True FgStarted]
      pause_resume_toggle [of stPausedNoGps "False" 5000 True FgStarted] h1 h2
    by blast
qed

text \<open>
  The automatic pause does not enter here. The GPS monitor calls the
  \<open>handleGpsDisabled\<close> of the render in which Start or Resume was pressed; when that
  render was not tracking, or was paused, the call only raises the message.
\<close>

lemma handleGpsDisabledOf_idle_render:
  "\<not> r_isTracking r \<or> r_isPaused r \<Longrightarrow>
   handleGpsDisabledOf r now bg fg st = st\<lparr>showGpsDisabledMessage := True\<rparr>"
  by (auto simp add: handleGpsDisabledOf_def)

lemma monitor_started_by_resume:
  assumes "isPaused st" and "gpsGood (gpsStatus st)"
  shows "gpsMonitor (handlePauseResume now bg FgStarted st) = Some (renderOf st)
         \<and> gpsMonitorFires now' bg' fg' (handlePauseResume now bg FgStarted st)
             = (handlePauseResume now bg FgStarted st)\<lparr>showGpsDisabledMessage := True\<rparr>"
proof -
  have m: "gpsMonitor (handlePauseResume now bg FgStarted st) = Some (renderOf st)"
    using assms
    by (simp add: handlePauseResume_def handlePauseResumeOf_def gpsGood_def svc_defs Let_def
        renderOf_def)
  have "r_isPaused (renderOf st)"
    using assms(1) by (simp add: renderOf_def)
  then show ?thesis
    using m by (simp add: gpsMonitorFires_def handleGpsDisabledOf_idle_render)
qed

subsection \<open>Pause starts are positive clock readings\<close>

lemma startRunTracking_pauseStartTime [simp]:
  "pauseStartTime (snd (startRunTracking bg fg st)) = pauseStartTime st"
  by (cases fg) (simp_all add: svc_defs Let_def)

lemma stopRunTracking_pauseStartTime [simp]:
  "pauseStartTime (stopRunTracking st) = pauseStartTime st"
  by (simp add: svc_defs)

lemma handleLocationUpdate_pauseStartTime [simp]:
  "pauseStartTime (handleLocationUpdate now l st) = pauseStartTime st"
  by (simp add: handleLocationUpdate_def Let_def)

lemma pausePositive_handleStartRun:
  "0 < now \<Longrightarrow> pausePositive st \<Longrightarrow> pausePositive (handleStartRun now h g bg fg st)"
  by (simp add: handleStartRun_def handleStartRunOf_def pausePositive_def Let_def split_beta)

lemma pausePositive_handlePauseResumeOf:
  "0 < now \<Longrightarrow> pausePositive st \<Longrightarrow> pausePositive (handlePauseResumeOf r now bg fg st)"
  by (simp add: handlePauseResumeOf_def pausePositive_def Let_def split_beta)

lemma pausePositive_handlePauseResume:
  "0 < now \<Longrightarrow> pausePositive st \<Longrightarrow> pausePositive (handlePauseResume now bg fg st)"
  by (simp add: handlePauseResume_def pausePositive_handlePauseResumeOf)

lemma pausePositive_handleStopAndReview:
  "0 < now \<Longrightarrow> pausePositive st \<Longrightarrow> pausePositive (handleStopAndReview now st)"
  by (simp add: handleStopAndReview_def pausePositive_def)

lemma pausePositive_handleQuitRun: "pausePositive (handleQuitRun st)"
  by (simp add: handleQuitRun_def stopTrackingAndCleanup_def pausePositive_def)

lemma pausePositive_tick: "pausePositive st \<Longrightarrow> pausePositive (tick now st)"
  by (simp add: tick_def pausePositive_def)

lemma pausePositive_periodicSave: "pausePositive st \<Longrightarrow> pausePositive (periodicSave e st)"
  by (simp add: periodicSave_def pausePositive_def split: option.splits)

lemma pausePositive_onForegroundFix:
  "pausePositive st \<Longrightarrow> pausePositive (onForegroundFix now l st)"
  by (simp add: onForegroundFix_def pausePositive_def Let_def)

lemma pausePositive_backgroundTask:
  "pausePositive st \<Longrightarrow> pausePositive (backgroundTask now err data st)"
  by (simp add: backgroundTask_def pausePositive_def Let_def split: option.splits)

lemma pausePositive_handleGpsDisabledOf:
  "0 < now \<Longrightarrow> pausePositive st \<Longrightarrow> pausePositive (handleGpsDisabledOf r now bg fg st)"
  using pausePositive_handlePauseResumeOf [of now "st\<lparr>showGpsDisabledMessage := True\<rparr>" r bg fg]
  by (simp add: handleGpsDisabledOf_def pausePositive_def Let_def)

lemma pausePositive_gpsMonitorFires:
  "0 < now \<Longrightarrow> pausePositive st \<Longrightarrow> pausePositive (gpsMonitorFires now bg fg st)"
  by (simp add: gpsMonitorFires_def pausePositive_handleGpsDisabledOf split: option.splits)

lemma pausePositive_handleGpsLostOf:
  "0 < now \<Longrightarrow> pausePositive st \<Longrightarrow> pausePositive (handleGpsLostOf r now bg fg st)"
  using pausePositive_handlePauseResumeOf [of now "st\<lparr>showGpsDisabledMessage := True\<rparr>" r bg fg]
  by (simp add: handleGpsLostOf_def pausePositive_def Let_def)

lemma pausePositive_checkGPSStatusOf:
  "0 < now \<Longrightarrow> pausePositive st \<Longrightarrow>
   pausePositive (checkGPSStatusOf r now e g a l bg fg st)"
  using pausePositive_handleGpsLostOf [of now st r bg fg]
  by (simp add: checkGPSStatusOf_def handleGpsRestored_def pausePositive_def Let_def
      split: option.splits)

lemma pausePositive_step: "clockOk ev \<Longrightarrow> pausePositive st \<Longrightarrow> pausePositive (step st ev)"
  by (cases ev)
     (simp_all add: pausePositive_handleStartRun pausePositive_handlePauseResume
        pausePositive_handleStopAndReview pausePositive_handleQuitRun pausePositive_tick
        pausePositive_periodicSave pausePositive_onForegroundFix pausePositive_backgroundTask
        pausePositive_checkGPSStatusOf pausePositive_gpsMonitorFires
        checkGPSStatus_def pollGPSStatus_def pollGPSStatusWhileBad_def)

lemma pausePositive_foldl:
  "list_all clockOk evs \<Longrightarrow> pausePositive st \<Longrightarrow> pausePositive (foldl step st evs)"
  by (induction evs arbitrary: st) (simp_all add: pausePositive_step)

lemma pausePositive_mount: "0 < now0 \<Longrightarrow> pausePositive (mount now0 s)"
  by (simp add: mount_def loadExistingTrackingData_def initialState_def pausePositive_def
      split: option.splits)

lemma pausePositive_run:
  "0 < now0 \<Longrightarrow> list_all clockOk evs \<Longrightarrow> pausePositive (run now0 s evs)"
  by (simp add: run_def pausePositive_foldl pausePositive_mount)

subsection \<open>The current segment index bounds the recorded ones\<close>

lemma startRunTracking_route [simp]:
  "route (snd (startRunTracking bg fg st)) = route st"
  "currentSegmentIndex (snd (startRunTracking bg fg st)) = currentSegmentIndex st"
  by (cases fg; simp add: svc_defs Let_def)+

lemma stopRunTracking_route [simp]:
  "route (stopRunTracking st) = route st"
  "currentSegmentIndex (stopRunTracking st) = currentSegmentIndex st"
  by (simp_all add: svc_defs)

lemma routeBounded_handleStartRun: "routeBounded (handleStartRun now h g bg fg st) \<or>
   handleStartRun now h g bg fg st = st"
  by (simp add: handleStartRun_def handleStartRunOf_def routeBounded_def Let_def split_beta)

text \<open>A stale \<open>handlePauseResume\<close> is only ever called to pause.\<close>

lemma routeBounded_pause:
  "routeBounded st \<Longrightarrow> \<not> r_isPaused r \<Longrightarrow> routeBounded (handlePauseResumeOf r now bg fg st)"
  by (simp add: handlePauseResumeOf_def routeBounded_def Let_def)

lemma routeBounded_handlePauseResume:
  "routeBounded st \<Longrightarrow> routeBounded (handlePauseResume now bg fg st)"
  by (auto simp add: handlePauseResume_def handlePauseResumeOf_def renderOf_def
      routeBounded_def Let_def split_beta)

lemma routeBounded_handleStopAndReview:
  "routeBounded st \<Longrightarrow> routeBounded (handleStopAndReview now st)"
  by (simp add: handleStopAndReview_def routeBounded_def)

lemma routeBounded_handleQuitRun: "routeBounded (handleQuitRun st)"
  by (simp add: handleQuitRun_def stopTrackingAndCleanup_def routeBounded_def)

lemma routeBounded_tick: "routeBounded st \<Longrightarrow> routeBounded (tick now st)"
  by (simp add: tick_def routeBounded_def)

lemma routeBounded_periodicSave: "routeBounded st \<Longrightarrow> routeBounded (periodicSave e st)"
  by (simp add: periodicSave_def routeBounded_def split: option.splits)

lemma routeBounded_handleLocationUpdate:
  "routeBounded st \<Longrightarrow> routeBounded (handleLocationUpdate now l st)"
  by (simp add: handleLocationUpdate_def routeBounded_def Let_def segmentIndexOr0_def
      orElse_def)

lemma routeBounded_onForegroundFix:
  "routeBounded st \<Longrightarrow> routeBounded (onForegroundFix now l st)"
proof -
  assume a: "routeBounded st"
  have "routeBounded (st\<lparr>svc_lastLocationTime := t\<rparr>)" for t
    using a by (simp add: routeBounded_def)
  then show ?thesis
    using a by (simp add: onForegroundFix_def Let_def routeBounded_handleLocationUpdate)
qed

lemma routeBounded_backgroundTask:
  "routeBounded st \<Longrightarrow> routeBounded (backgroundTask now err data st)"
  by (simp add: backgroundTask_def routeBounded_def Let_def split: option.splits)

lemma routeBounded_handleGpsDisabledOf:
  "routeBounded st \<Longrightarrow> routeBounded (handleGpsDisabledOf r now bg fg st)"
  using routeBounded_pause [of "st\<lparr>showGpsDisabledMessage := True\<rparr>" r now bg fg]
  by (simp add: handleGpsDisabledOf_def routeBounded_def Let_def)

lemma routeBounded_gpsMonitorFires:
  "routeBounded st \<Longrightarrow> routeBounded (gpsMonitorFires now bg fg st)"
  by (simp add: gpsMonitorFires_def routeBounded_handleGpsDisabledOf split: option.splits)

lemma routeBounded_handleGpsLostOf:
  "routeBounded st \<Longrightarrow> routeBounded (handleGpsLostOf r now bg fg st)"
  using routeBounded_pause [of "st\<lparr>showGpsDisabledMessage := True\<rparr>" r now bg fg]
  by (simp add: handleGpsLostOf_def routeBounded_def Let_def)

lemma routeBounded_checkGPSStatusOf:
  "routeBounded st \<Longrightarrow> routeBounded (checkGPSStatusOf r now e g a l bg fg st)"
  using routeBounded_handleGpsLostOf [of st r now bg fg]
  by (simp add: checkGPSStatusOf_def handleGpsRestored_def routeBounded_def Let_def
      split: option.splits)

lemma routeBounded_step: "routeBounded st \<Longrightarrow> routeBounded (step st ev)"
proof (cases ev)
  case (StartRun now h g bg fg)
  assume "routeBounded st"
  then show ?thesis
    using routeBounded_handleStartRun [of now h g bg fg st] by (auto simp add: StartRun)
qed (simp_all add: routeBounded_handlePauseResume routeBounded_handleStopAndReview
       routeBounded_handleQuitRun routeBounded_tick routeBounded_periodicSave
       routeBounded_onForegroundFix routeBounded_backgroundTask
       routeBounded_checkGPSStatusOf routeBounded_gpsMonitorFires
       checkGPSStatus_def pollGPSStatus_def pollGPSStatusWhileBad_def)

lemma routeBounded_foldl: "routeBounded st \<Longrightarrow> routeBounded (foldl step st evs)"
  by (induction evs arbitrary: st) (simp_all add: routeBounded_step)

lemma routeBounded_mount: "snapshotBounded s \<Longrightarrow> routeBounded (mount now0 s)"
  by (simp add: mount_def loadExistingTrackingData_def initialState_def routeBounded_def
      snapshotBounded_def split: option.splits)

text \<open>
  From a store that is empty, or whose snapshot keeps its coordinates within its own
  current segment index, every state of a run keeps the recorded coordinates within the
  current segment index.
\<close>

lemma route_indices_bounded:
  "snapshotBounded s \<Longrightarrow> routeBounded (run now0 s evs)"
  by (simp add: run_def routeBounded_foldl routeBounded_mount)

subsection \<open>Resume\<close>

lemma resume_fields:
  assumes "isPaused st" and "gpsGood (gpsStatus st)" and "pauseStartTime st = Some p"
    and "p \<noteq> 0"
  shows "totalPausedTime (handlePauseResume now bg fg st) = totalPausedTime st + (now - p)
         \<and> pauseStartTime (handlePauseResume now bg fg st) = None
         \<and> currentSegmentIndex (handlePauseResume now bg fg st) = currentSegmentIndex st + 1
         \<and> currentSegmentStartTime (handlePauseResume now bg fg st) = Some now
         \<and> isTracking (handlePauseResume now bg fg st) = isTracking st
         \<and> \<not> isPaused (handlePauseResume now bg fg st)"
  using assms
  by (cases fg)
     (simp_all add: handlePauseResume_def handlePauseResumeOf_def renderOf_def gpsGood_def
        truthy_def svc_defs Let_def)

text \<open>
  What Resume does to the accounts. Take any state \<open>st\<close> that the controller reaches
  after it is mounted, with every clock reading positive, in which the session is paused
  with \<open>pauseStartTime = p\<close>. If the last polled GPS status is good, Resume at \<open>now\<close> adds
  \<open>now - p\<close> to the total paused time, clears the pause start, moves the current segment
  index one up and starts that segment at \<open>now\<close>, whatever the watchers answer. If the
  last polled GPS status is not good, the state is unchanged.
\<close>

lemma resume_accounting:
  assumes "0 < now0" and "list_all clockOk evs" and "st = run now0 s evs"
    and "isTracking st" and "isPaused st" and "pauseStartTime st = Some p"
  shows "(gpsGood (gpsStatus st) \<longrightarrow>
            totalPausedTime (handlePauseResume now bg fg st) = totalPausedTime st + (now - p)
            \<and> pauseStartTime (handlePauseResume now bg fg st) = None
            \<and> currentSegmentIndex (handlePauseResume now bg fg st)
                = currentSegmentIndex st + 1
            \<and> currentSegmentStartTime (handlePauseResume now bg fg st) = Some now
            \<and> isTracking (handlePauseResume now bg fg st)
            \<and> \<not> isPaused (handlePauseResume now bg fg st))
         \<and> (\<not> gpsGood (gpsStatus st) \<longrightarrow> handlePauseResume now bg fg st = st)"
proof -
  have "pausePositive st"
    using assms(1-3) by (simp add: pausePositive_run)
  with assms(6) have p: "p \<noteq> 0"
    by (simp add: pausePositive_def)
  show ?thesis
    using resume_fields [OF assms(5) _ assms(6) p, of now bg fg]
      resume_refused [OF assms(5), of now bg fg] assms(4)
    by blast
qed

text \<open>
  The index Resume opens is one past the largest index in use: in a run over a store
  that is empty or bounded, no recorded coordinate lies beyond the current index.
\<close>

lemma resume_opens_index_past_maximum:
  assumes "snapshotBounded s" and "st = run now0 s evs"
    and "isPaused st" and "gpsGood (gpsStatus st)"
  shows "currentSegmentIndex (handlePauseResume now bg fg st)
           = Suc (Max (insert (currentSegmentIndex st) (segmentIndexOr0 ` set (route st))))"
proof -
  have "routeBounded st"
    using assms(1,2) by (simp add: route_indices_bounded)
  then have "Max (insert (currentSegmentIndex st) (segmentIndexOr0 ` set (route st)))
               = currentSegmentIndex st"
    by (intro Max_eqI) (auto simp add: routeBounded_def)
  then show ?thesis
    using resume_unpauses [OF assms(3,4), of now bg fg] by simp
qed

text \<open>
  C6 does not hold when the availability check that fails is the live one. The handler
  tests only the last polled \<open>gpsStatus\<close>; it then un-pauses, adds the paused time and
  opens the next segment, and only afterwards restarts the watchers, whose own
  permission and services check may refuse. That refusal is logged and nothing is
  rolled back (Start, on the same failure, rolls back): the session of \<open>stPaused\<close> is
  left un-paused at 5000 with 1000 ms added, segment 1 open and no watcher running.
\<close>

theorem resume_not_rolled_back:
  "isTracking stPaused \<and> isPaused stPaused \<and> gpsGood (gpsStatus stPaused)
   \<and> pauseStartTime stPaused = Some 4000 \<and> totalPausedTime stPaused = 0
   \<and> currentSegmentIndex stPaused = 0
   \<and> evsResumeRefused = evsPaused @ [PauseResume 5000 True FgRefused]
   \<and> isTracking stResumeRefused \<and> \<not> isPaused stResumeRefused
   \<and> pauseStartTime stResumeRefused = None \<and> totalPausedTime stResumeRefused = 1000
   \<and> currentSegmentIndex stResumeRefused = 1
   \<and> currentSegmentStartTime stResumeRefused = Some 5000
   \<and> \<not> fgWatching stResumeRefused \<and> \<not> bgWatching stResumeRefused
   \<and> gpsMonitor stResumeRefused = None"
  by (simp add: example_defs eval_defs)

text \<open>
  C10. Recovery stamps the pause start with its own clock reading \<open>tRec\<close>, whatever pause
  start the snapshot holds, so the first Resume (once a GPS check has found the location
  available) adds \<open>tRes - tRec\<close>, the time since the restart, to the snapshot's total
  paused time.
\<close>

theorem recovery_pause_counts_downtime:
  assumes "snap_isTracking s" and "0 < tRec"
  shows "pauseStartTime (mount tRec (Some s)) = Some tRec
         \<and> totalPausedTime
             (handlePauseResume tRes bg fg
                (checkGPSStatus tChk True True ask loc bg' fg' (mount tRec (Some s))))
           = orElse (snap_totalPausedTime s) 0 + (tRes - tRec)"
proof -
  define st where "st = checkGPSStatus tChk True True ask loc bg' fg' (mount tRec (Some s))"
  have m: "pauseStartTime (mount tRec (Some s)) = Some tRec"
    using assms(1) by (simp add: mount_def loadExistingTrackingData_def initialState_def)
  have st: "isPaused st \<and> gpsGood (gpsStatus st) \<and> pauseStartTime st = Some tRec
            \<and> totalPausedTime st = orElse (snap_totalPausedTime s) 0"
    using assms(1)
    by (simp add: st_def checkGPSStatus_def checkGPSStatusOf_def renderOf_def
        handleGpsRestored_def gpsGood_def mount_def loadExistingTrackingData_def
        initialState_def Let_def split: option.splits)
  from assms(2) have "tRec \<noteq> 0" by simp
  with st have "totalPausedTime (handlePauseResume tRes bg fg st)
      = orElse (snap_totalPausedTime s) 0 + (tRes - tRec)"
    using resume_fields [of st tRec tRes bg fg] by simp
  with m show ?thesis by (simp only: st_def)
qed

theorem recovery_pause_counts_downtime_witness:
  "snap_isTracking snapTracking \<and> snap_pauseStartTime snapTracking = None
   \<and> pauseStartTime (mount 5000 (Some snapTracking)) = Some 5000
   \<and> totalPausedTime
        (handlePauseResume 9000 True FgStarted
           (checkGPSStatus 6000 True True True None False FgRefused
              (mount 5000 (Some snapTracking))))
      = 4000"
proof -
  have h: "snap_isTracking snapTracking" "(0::int) < 5000"
    by (simp_all add: snapTracking_def)
  show ?thesis
    using recovery_pause_counts_downtime [OF h, of 9000 True FgStarted 6000 True None False FgRefused]
    by (simp add: snapTracking_def orElse_def)
qed

subsection \<open>Duplicate timestamps\<close>

text \<open>
  What the background task does: every point it adds to the stored route carries a
  timestamp that no coordinate of the stored route has.
\<close>

lemma backgroundTask_stored:
  assumes "stored st = Some d"
  shows "stored (backgroundTask now err data st) = Some d
         \<or> (\<exists>locations. stored (backgroundTask now err data st)
               = Some (d\<lparr> snap_route := snap_route d @
                     filter (\<lambda>point. timestamp point \<notin> set (map timestamp
                               (filter (\<lambda>point. truthy (timestamp point)) (snap_route d))))
                       (map (bgPoint now) locations),
                     snap_lastBackgroundUpdate := Some now \<rparr>))"
proof (cases data)
  case None
  then show ?thesis using assms by (simp add: backgroundTask_def)
next
  case (Some locations)
  show ?thesis
    unfolding Some using assms
    by (simp add: backgroundTask_def Let_def) blast
qed

lemma backgroundTask_skips_stored_timestamps:
  assumes "stored st = Some d" and "stored (backgroundTask now err data st) = Some d'"
  shows "\<exists>new. snap_route d' = snap_route d @ new
           \<and> (\<forall>p\<in>set new. timestamp p \<noteq> None
                 \<and> timestamp p \<notin> timestamp ` {c \<in> set (snap_route d). truthy (timestamp c)})"
proof -
  from backgroundTask_stored [OF assms(1), of now err data]
  consider "d' = d"
    | locations where "d' = d\<lparr> snap_route := snap_route d @
                     filter (\<lambda>point. timestamp point \<notin> set (map timestamp
                               (filter (\<lambda>point. truthy (timestamp point)) (snap_route d))))
                       (map (bgPoint now) locations),
                     snap_lastBackgroundUpdate := Some now \<rparr>"
    using assms(2) by auto
  then show ?thesis
  proof cases
    case 1
    then show ?thesis by simp
  next
    case 2
    define new where
      "new = filter (\<lambda>point. timestamp point \<notin> set (map timestamp
                          (filter (\<lambda>point. truthy (timestamp point)) (snap_route d))))
                    (map (bgPoint now) locations)"
    have r: "snap_route d' = snap_route d @ new"
      by (simp add: 2 new_def)
    have "\<forall>p\<in>set new. timestamp p \<noteq> None
            \<and> timestamp p \<notin> timestamp ` {c \<in> set (snap_route d). truthy (timestamp c)}"
      by (auto simp add: new_def bgPoint_def)
    with r show ?thesis by blast
  qed
qed

text \<open>
  C4 does not hold of the foreground source. \<open>handleLocationUpdate\<close> appends without
  looking at the timestamps already recorded. In the run below \<open>fixA\<close>, stamped 2500, is
  recorded, the run is paused and resumed, and the restarted watcher (whose rate limit
  starts again from 0) delivers \<open>fixA\<close> once more: it is recorded a second time, in the
  route and in the stored snapshot.
\<close>

theorem foreground_accepts_duplicate_timestamp:
  "map timestamp (route stPaused) = [Some 2500]
   \<and> lo_timestamp fixA = 2500
   \<and> evsRedelivered = evsPaused @ [PauseResume 5000 True FgStarted, ForegroundFix 6000 fixA]
   \<and> map timestamp (route stRedelivered) = [Some 2500, Some 2500]
   \<and> map source (route stRedelivered) = [Some Foreground, Some Foreground]
   \<and> map_option (\<lambda>d. map timestamp (snap_route d)) (stored stRedelivered)
       = Some [Some 2500, Some 2500]"
  by (simp add: example_defs eval_defs)

text \<open>
  The claim's own scenario, background first: the background task records the fix in
  the stored route, then the foreground handler records the same fix in the screen's
  route and overwrites the stored route with it. Both fixes are accepted.
\<close>

lemma background_then_foreground_both_accepted:
  "map_option (\<lambda>d. map (\<lambda>c. (timestamp c, source c)) (snap_route d)) (stored stBackgroundFirst)
     = Some [(Some 2500, Some Background)]
   \<and> route stBackgroundFirst = []
   \<and> map (\<lambda>c. (timestamp c, source c)) (route stBoth) = [(Some 2500, Some Foreground)]
   \<and> map_option (\<lambda>d. map (\<lambda>c. (timestamp c, source c)) (snap_route d)) (stored stBoth)
     = Some [(Some 2500, Some Foreground)]"
  by (simp add: example_defs eval_defs)

subsection \<open>Segment indices\<close>

text \<open>
  C8, as the claim words it, fails. The run below is paused before any fix arrives and
  then resumed, so its first coordinate lies in segment 1; the only derived segment has
  index 1 at position 0.
\<close>

theorem segment_gap_counterexample:
  "stGap = run 1000 None evsGap
   \<and> map segmentIndex (route stGap) = [Some 1]
   \<and> length (coordinatesToSegments (route stGap)) = 1
   \<and> seg_segmentIndex (coordinatesToSegments (route stGap) ! 0) = 1"
  by (simp add: example_defs eval_defs coordinatesToSegments_def segmentMap_def
      segmentIndexOr0_def toSegment_def timestamped_def)

lemma toSegment_index: "seg_segmentIndex (toSegment (k, cs)) = k"
  by (simp add: toSegment_def Let_def split: list.splits)

lemma map_toSegment_index: "map seg_segmentIndex (map toSegment m) = map fst m"
  by (induction m) (auto simp add: toSegment_index)

lemma mapPush_keys:
  "map fst (mapPush k c m) = (if k \<in> set (map fst m) then map fst m else map fst m @ [k])"
  by (induction k c m rule: mapPush.induct) force+

lemma mapPush_set: "set (map fst (mapPush k c m)) = insert k (set (map fst m))"
  by (simp only: mapPush_keys) auto

lemma mapPush_distinct: "distinct (map fst m) \<Longrightarrow> distinct (map fst (mapPush k c m))"
  by (simp only: mapPush_keys) simp

lemma foldl_mapPush:
  "distinct (map fst m) \<Longrightarrow>
   distinct (map fst (foldl (\<lambda>m coord. mapPush (segmentIndexOr0 coord) coord m) m cs))
   \<and> set (map fst (foldl (\<lambda>m coord. mapPush (segmentIndexOr0 coord) coord m) m cs))
       = set (map fst m) \<union> segmentIndexOr0 ` set cs"
proof (induction cs arbitrary: m)
  case Nil
  then show ?case by simp
next
  case (Cons c cs)
  have d: "distinct (map fst (mapPush (segmentIndexOr0 c) c m))"
    using Cons.prems by (rule mapPush_distinct)
  show ?case
    using Cons.IH [OF d] by (simp only: foldl_Cons mapPush_set list.set image_insert) auto
qed

lemma segmentMap_keys:
  "distinct (map fst (segmentMap cs))"
  "set (map fst (segmentMap cs)) = segmentIndexOr0 ` set cs"
  using foldl_mapPush [of "[]" cs] by (simp_all add: segmentMap_def del: set_map)

lemma distinct_map_sort_key: "distinct (map f (sort_key f xs)) = distinct (map f xs)"
  by (induction xs) (simp_all add: distinct_insort_key)

lemma segment_indices_sorted_list:
  "map seg_segmentIndex (coordinatesToSegments cs)
     = sorted_list_of_set (segmentIndexOr0 ` set cs)"
proof (rule sorted_distinct_set_unique)
  show "sorted (map seg_segmentIndex (coordinatesToSegments cs))"
    unfolding coordinatesToSegments_def by (rule sorted_sort_key)
  have "distinct (map seg_segmentIndex (map toSegment (segmentMap cs)))"
    by (simp only: map_toSegment_index segmentMap_keys)
  then show "distinct (map seg_segmentIndex (coordinatesToSegments cs))"
    unfolding coordinatesToSegments_def by (simp only: distinct_map_sort_key)
  have "set (map seg_segmentIndex (coordinatesToSegments cs))
          = set (map seg_segmentIndex (map toSegment (segmentMap cs)))"
    unfolding coordinatesToSegments_def by (simp only: set_map set_sort)
  also have "\<dots> = set (map fst (segmentMap cs))"
    by (simp only: map_toSegment_index)
  finally show "set (map seg_segmentIndex (coordinatesToSegments cs))
          = set (sorted_list_of_set (segmentIndexOr0 ` set cs))"
    by (simp only: segmentMap_keys) simp
qed simp_all

lemma upt_iff_range:
  assumes "finite S"
  shows "sorted_list_of_set S = [0..<n] \<longleftrightarrow> S = {0..<n}"
proof
  assume "sorted_list_of_set S = [0..<n]"
  then have "set (sorted_list_of_set S) = set [0..<n]" by simp
  with assms show "S = {0..<n}" by simp
next
  assume "S = {0..<n}" then show "sorted_list_of_set S = [0..<n]" by simp
qed

lemma upt_nth_id: "l = [0..<n] \<Longrightarrow> i < n \<Longrightarrow> l ! i = i"
  by simp

lemma nth_id_iff_upt: "(\<forall>i<length l. l ! i = i) \<longleftrightarrow> l = [0..<length l]"
proof
  assume a: "\<forall>i<length l. l ! i = i"
  show "l = [0..<length l]"
    by (rule nth_equalityI) (simp_all add: a)
next
  assume e: "l = [0..<length l]"
  show "\<forall>i<length l. l ! i = i"
    using upt_nth_id [OF e] by blast
qed

text \<open>
  C8, amended. The derived segments come in strictly increasing order of index, and their
  indices are exactly the segment indices (a missing one counting as 0) that recorded
  coordinates carry. So \<open>segments[i].index = i\<close> holds for every \<open>i\<close> exactly when each
  index below the number of derived segments has a recorded coordinate; a segment that
  was opened and closed without a coordinate leaves a gap.
\<close>

theorem derived_segment_indices:
  "map seg_segmentIndex (coordinatesToSegments cs)
     = sorted_list_of_set (segmentIndexOr0 ` set cs)
   \<and> ((\<forall>i<length (coordinatesToSegments cs).
          seg_segmentIndex (coordinatesToSegments cs ! i) = i)
        \<longleftrightarrow> segmentIndexOr0 ` set cs = {0..<length (coordinatesToSegments cs)})"
proof -
  define l where "l = map seg_segmentIndex (coordinatesToSegments cs)"
  define S where "S = segmentIndexOr0 ` set cs"
  define n where "n = length (coordinatesToSegments cs)"
  have eq: "l = sorted_list_of_set S"
    unfolding l_def S_def by (rule segment_indices_sorted_list)
  have len: "length l = n" by (simp add: l_def n_def)
  have fin: "finite S" by (simp add: S_def)
  have "(\<forall>i<n. seg_segmentIndex (coordinatesToSegments cs ! i) = i)
        \<longleftrightarrow> (\<forall>i<length l. l ! i = i)"
    by (simp add: l_def n_def)
  also have "\<dots> \<longleftrightarrow> l = [0..<n]"
    using nth_id_iff_upt [of l] by (simp only: len)
  also have "\<dots> \<longleftrightarrow> S = {0..<n}"
    using upt_iff_range [OF fin, of n] by (simp only: eq)
  finally have "(\<forall>i<n. seg_segmentIndex (coordinatesToSegments cs ! i) = i) \<longleftrightarrow> S = {0..<n}" .
  with eq show ?thesis by (simp only: l_def S_def n_def)
qed


theorem derived_segment_indices_witness:
  "segmentIndexOr0 ` set (route stActive) = {0}
   \<and> map seg_segmentIndex (coordinatesToSegments (route stActive)) = [0]"
proof -
  have h: "segmentIndexOr0 ` set (route stActive) = {0}"
    by (simp add: example_defs eval_defs segmentIndexOr0_def)
  show ?thesis
    using derived_segment_indices [of "route stActive"] h by simp
qed

end
